theory Spec2Isabelle
  imports Main "HOL-Library.Word"
begin

unbundle bit_operations_syntax

section \<open>Fiona geometry codec (\<^verbatim>\<open>fiona/_geometry.pyx\<close>)\<close>

text \<open>
  The module converts between OGR geometry handles and GeoJSON-like mappings.
  Python exceptions are values of the type \<open>error\<close>; a function that can raise
  returns \<open>error + 'a\<close> with \<open>Inl\<close> for the exception.
\<close>

subsection \<open>Exceptions\<close>

datatype error =
    NullGeom                    \<comment> \<open>\<^verbatim>\<open>ValueError("Null geom")\<close>\<close>
  | UnsupportedType string      \<comment> \<open>\<^verbatim>\<open>ValueError("Unsupported geometry type %s" % typename)\<close>\<close>
  | UnpackError nat             \<comment> \<open>\<^verbatim>\<open>ValueError\<close> of a tuple unpacking that got this many values\<close>
  | KeyError_code int           \<comment> \<open>\<^verbatim>\<open>KeyError\<close> of \<^verbatim>\<open>GEOMETRY_TYPES[...]\<close>\<close>
  | KeyError_name string        \<comment> \<open>\<^verbatim>\<open>KeyError\<close> of a lookup by a string key\<close>
  | AttributeError string       \<comment> \<open>\<^verbatim>\<open>getattr\<close> found no method of this name\<close>
  | IndexError                  \<comment> \<open>index out of range\<close>
  | TypeError                   \<comment> \<open>a value of the wrong Python type\<close>
  | CreateFailed int            \<comment> \<open>\<^verbatim>\<open>Exception("Could not create OGR Geometry of type: %i")\<close>\<close>
  | SystemError                 \<comment> \<open>a \<^verbatim>\<open>cdef ... except NULL\<close> function returned NULL with no exception set\<close>

subsection \<open>The type tables\<close>

text \<open>
  \<^verbatim>\<open>GEOMETRY_TYPES\<close> is a dict literal; its items are listed in the order of the source.
  The keys are pairwise distinct, so the order does not matter for lookups.
\<close>

definition GEOMETRY_TYPES :: "(int \<times> string) list" where
  "GEOMETRY_TYPES =
    [(0, ''Unknown''),
     (1, ''Point''),
     (2, ''LineString''),
     (3, ''Polygon''),
     (4, ''MultiPoint''),
     (5, ''MultiLineString''),
     (6, ''MultiPolygon''),
     (7, ''GeometryCollection''),
     (100, ''None''),
     (101, ''LinearRing''),
     (0x80000001, ''3D Point''),
     (0x80000002, ''3D LineString''),
     (0x80000003, ''3D Polygon''),
     (0x80000004, ''3D MultiPoint''),
     (0x80000005, ''3D MultiLineString''),
     (0x80000006, ''3D MultiPolygon''),
     (0x80000007, ''3D GeometryCollection'')]"

text \<open>\<^verbatim>\<open>GEOMETRY_TYPES[k]\<close>: a missing key raises \<^verbatim>\<open>KeyError\<close>.\<close>

definition GEOMETRY_TYPES_getitem :: "int \<Rightarrow> error + string" where
  "GEOMETRY_TYPES_getitem k =
     (case map_of GEOMETRY_TYPES k of None \<Rightarrow> Inl (KeyError_code k) | Some v \<Rightarrow> Inr v)"

text \<open>
  \<^verbatim>\<open>GEOJSON2OGR_GEOMETRY_TYPES = dict((v, k) for k, v in GEOMETRY_TYPES.iteritems())\<close>:
  the dict is filled pair by pair, a later pair replacing an earlier one with the same key.
\<close>

definition GEOJSON2OGR_GEOMETRY_TYPES :: "string \<rightharpoonup> int" where
  "GEOJSON2OGR_GEOMETRY_TYPES = fold (\<lambda>(k, v) m. m(v \<mapsto> k)) GEOMETRY_TYPES Map.empty"

text \<open>\<^verbatim>\<open>GEOJSON2OGR_GEOMETRY_TYPES[name]\<close> (the spec's \<open>codeForName\<close>).\<close>

definition GEOJSON2OGR_GEOMETRY_TYPES_getitem :: "string \<Rightarrow> error + int" where
  "GEOJSON2OGR_GEOMETRY_TYPES_getitem name =
     (case GEOJSON2OGR_GEOMETRY_TYPES name of None \<Rightarrow> Inl (KeyError_name name) | Some c \<Rightarrow> Inr c)"

text \<open>
  Line 119 of the source, \<^verbatim>\<open>GEOMETRY_TYPES[self.code & (~0x80000000)]\<close> (the spec's
  \<open>nameForCode\<close>). \<^verbatim>\<open>self.code\<close> is a Python integer, so \<^verbatim>\<open>~0x80000000\<close> is the
  unbounded two's complement \<open>- 0x80000001\<close> and the conjunction clears bit 31 only.
\<close>

definition geomtypename :: "int \<Rightarrow> error + string" where
  "geomtypename code = GEOMETRY_TYPES_getitem (code AND (NOT 0x80000000))"

subsection \<open>Python values and geometry mappings\<close>

text \<open>
  The coordinate data of a geometry mapping: numbers, nested in sequences. \<open>Seq\<close> stands
  for a list or a tuple (the code only takes \<^verbatim>\<open>len\<close>, iterates, slices and unpacks
  them); \<open>PyNone\<close> is what \<^verbatim>\<open>dict.get\<close> returns for a missing key. The numbers are
  the type parameter \<open>'a\<close>: the codec never calculates with them, it hands them to the
  engine and reads them back.
\<close>

datatype 'a pyval = PyNone | Num 'a | Seq "'a pyval list"

text \<open>
  A geometry mapping: the entry \<^verbatim>\<open>'type'\<close>, and the optional entries
  \<^verbatim>\<open>'coordinates'\<close> and \<^verbatim>\<open>'geometries'\<close> (\<open>None\<close> when the key is absent).
\<close>

datatype 'a geometry =
  Geometry (gtype: string) (gcoordinates: "'a pyval option")
    (ggeometries: "'a geometry list option")

text \<open>\<^verbatim>\<open>geometry.get('coordinates')\<close>\<close>

definition dict_get :: "'a pyval option \<Rightarrow> 'a pyval" where
  "dict_get v = (case v of None \<Rightarrow> PyNone | Some x \<Rightarrow> x)"

text \<open>\<^verbatim>\<open>len(v)\<close>, \<^verbatim>\<open>for x in v\<close> and the conversion of an argument to a C double.\<close>

definition py_len :: "'a pyval \<Rightarrow> error + nat" where
  "py_len v = (case v of Seq xs \<Rightarrow> Inr (length xs) | _ \<Rightarrow> Inl TypeError)"

definition py_iter :: "'a pyval \<Rightarrow> error + 'a pyval list" where
  "py_iter v = (case v of Seq xs \<Rightarrow> Inr xs | _ \<Rightarrow> Inl TypeError)"

definition py_float :: "'a pyval \<Rightarrow> error + 'a" where
  "py_float v = (case v of Num x \<Rightarrow> Inr x | _ \<Rightarrow> Inl TypeError)"

subsection \<open>The geometry engine\<close>

text \<open>
  Modelled from the spec: the external geometry engine (OGR), whose functions
  \<^verbatim>\<open>OGR_G_*\<close> the module calls and whose code is not part of the repository. A
  geometry object has the type code it was created with, a coordinate dimension, its own
  points (x, y, z) and its child geometries. A handle is a pointer to such an object or
  NULL (\<open>None\<close>). The engine counts the geometry objects that are allocated (\<open>live\<close>).
\<close>

datatype 'a OGRGeometry =
  OGRGeometry (ogr_type: int) (ogr_dim: int) (ogr_points: "('a \<times> 'a \<times> 'a) list")
    (ogr_geoms: "'a OGRGeometry list")

type_synonym 'a handle = "'a OGRGeometry option"

record engine =
  live :: int

fun node_count :: "'a OGRGeometry \<Rightarrow> int" where
  "node_count (OGRGeometry t d ps gs) = 1 + sum_list (map node_count gs)"

text \<open>
  Modelled from the spec: \<open>createGeometry(typeCode) -> Handle | null\<close>. The engine
  creates the eight concrete kinds and returns NULL for every other code. A new object is
  empty and two-dimensional.
\<close>

definition OGR_G_CreateGeometry :: "int \<Rightarrow> engine \<Rightarrow> engine \<times> 'a handle" where
  "OGR_G_CreateGeometry t s =
     (if t \<in> {1, 2, 3, 4, 5, 6, 7, 101}
      then (s\<lparr>live := live s + 1\<rparr>, Some (OGRGeometry t 2 [] []))
      else (s, None))"

text \<open>
  Modelled from the spec: \<open>destroyGeometry(Handle)\<close>; destroying an object destroys the
  children it owns.
\<close>

definition OGR_G_DestroyGeometry :: "'a OGRGeometry \<Rightarrow> engine \<Rightarrow> engine" where
  "OGR_G_DestroyGeometry g s = s\<lparr>live := live s - node_count g\<rparr>"

text \<open>
  Modelled from the spec: \<open>getGeometryType(Handle) -> int\<close> (raw type code, 3D bit
  possibly set) as a C \<^verbatim>\<open>unsigned int\<close>, and \<open>getCoordinateDimension\<close>.
\<close>

definition OGR_G_GetGeometryType :: "'a OGRGeometry \<Rightarrow> 32 word" where
  "OGR_G_GetGeometryType g =
     (if ogr_dim g = 3 then word_of_int (ogr_type g) OR 0x80000000
      else word_of_int (ogr_type g))"

definition OGR_G_GetCoordinateDimension :: "'a OGRGeometry \<Rightarrow> int" where
  "OGR_G_GetCoordinateDimension g = ogr_dim g"

text \<open>Modelled from the spec: \<open>getPointCount\<close>, \<open>getX/Y/Z(Handle, index)\<close>.\<close>

definition OGR_G_GetPointCount :: "'a OGRGeometry \<Rightarrow> nat" where
  "OGR_G_GetPointCount g = length (ogr_points g)"

definition OGR_G_GetX :: "'a OGRGeometry \<Rightarrow> nat \<Rightarrow> 'a" where
  "OGR_G_GetX g i = fst (ogr_points g ! i)"

definition OGR_G_GetY :: "'a OGRGeometry \<Rightarrow> nat \<Rightarrow> 'a" where
  "OGR_G_GetY g i = fst (snd (ogr_points g ! i))"

definition OGR_G_GetZ :: "'a OGRGeometry \<Rightarrow> nat \<Rightarrow> 'a" where
  "OGR_G_GetZ g i = snd (snd (ogr_points g ! i))"

text \<open>Modelled from the spec: \<open>getChildCount\<close>, \<open>getChildRef(Handle, index)\<close>.\<close>

definition OGR_G_GetGeometryCount :: "'a OGRGeometry \<Rightarrow> nat" where
  "OGR_G_GetGeometryCount g = length (ogr_geoms g)"

definition OGR_G_GetGeometryRef :: "'a OGRGeometry \<Rightarrow> nat \<Rightarrow> 'a OGRGeometry" where
  "OGR_G_GetGeometryRef g j = ogr_geoms g ! j"

text \<open>
  Modelled from the spec: \<open>addPoint2D(Handle, x, y)\<close> and \<open>addPoint3D(Handle, x, y, z)\<close>.
  The 2D call stores z = 0 and leaves the dimension as it is; the 3D call makes the
  object three-dimensional.
\<close>

definition OGR_G_AddPoint_2D :: "'a::zero OGRGeometry \<Rightarrow> 'a \<Rightarrow> 'a \<Rightarrow> 'a OGRGeometry" where
  "OGR_G_AddPoint_2D g x y =
     OGRGeometry (ogr_type g) (ogr_dim g) (ogr_points g @ [(x, y, 0)]) (ogr_geoms g)"

definition OGR_G_AddPoint :: "'a OGRGeometry \<Rightarrow> 'a \<Rightarrow> 'a \<Rightarrow> 'a \<Rightarrow> 'a OGRGeometry" where
  "OGR_G_AddPoint g x y z =
     OGRGeometry (ogr_type g) 3 (ogr_points g @ [(x, y, z)]) (ogr_geoms g)"

text \<open>
  Modelled from the spec: \<open>addChildOwned(parent, child)\<close>; the child becomes the last
  child of the parent, and a three-dimensional child makes the parent three-dimensional.
\<close>

definition OGR_G_AddGeometryDirectly :: "'a OGRGeometry \<Rightarrow> 'a OGRGeometry \<Rightarrow> 'a OGRGeometry" where
  "OGR_G_AddGeometryDirectly g c =
     OGRGeometry (ogr_type g) (if ogr_dim c = 3 then 3 else ogr_dim g) (ogr_points g)
       (ogr_geoms g @ [c])"

text \<open>
  Modelled from the spec: \<open>closeRing(Handle)\<close>, "so the first and last coordinates
  coincide (idempotent if already closed)": with two points or more, of which the first
  differs from the last, the first point is added again at the end.
\<close>

definition OGR_G_CloseRings :: "'a OGRGeometry \<Rightarrow> 'a OGRGeometry" where
  "OGR_G_CloseRings g =
     (if 2 \<le> length (ogr_points g) \<and> hd (ogr_points g) \<noteq> last (ogr_points g)
      then OGRGeometry (ogr_type g) (ogr_dim g) (ogr_points g @ [hd (ogr_points g)]) (ogr_geoms g)
      else g)"


subsection \<open>Creating and deleting handles\<close>


text \<open>\<^verbatim>\<open>_deleteOgrGeom\<close>\<close>

definition deleteOgrGeom :: "'a handle \<Rightarrow> engine \<Rightarrow> engine" where
  "deleteOgrGeom cogr_geometry s =
     (case cogr_geometry of None \<Rightarrow> s | Some g \<Rightarrow> OGR_G_DestroyGeometry g s)"

subsection \<open>\<^verbatim>\<open>GeomBuilder\<close>: from a handle to a geometry mapping\<close>

text \<open>
  The builder's fields \<^verbatim>\<open>self.ndims\<close> and \<^verbatim>\<open>self.geom\<close>, set by \<^verbatim>\<open>build\<close>, are
  the arguments of the \<^verbatim>\<open>_build*\<close> methods. The fields are declared outside this
  source file; \<^verbatim>\<open>self.code\<close> and \<^verbatim>\<open>self.ndims\<close> are taken to hold Python integers.

  \<^verbatim>\<open>_buildCoords\<close>: the loop over \<^verbatim>\<open>range(npoints)\<close>; a point is the tuple (x, y),
  with z appended when \<^verbatim>\<open>self.ndims > 2\<close>.
\<close>

definition GeomBuilder_buildCoords :: "int \<Rightarrow> 'a handle \<Rightarrow> error + 'a pyval list" where
  "GeomBuilder_buildCoords ndims geom =
     (case geom of
        None \<Rightarrow> Inl NullGeom
      | Some g \<Rightarrow>
          Inr (map (\<lambda>i. Seq ([Num (OGR_G_GetX g i), Num (OGR_G_GetY g i)]
                              @ (if ndims > 2 then [Num (OGR_G_GetZ g i)] else [])))
                 [0 ..< OGR_G_GetPointCount g]))"

text \<open>\<^verbatim>\<open>_buildPoint\<close>: element 0 of the coordinate list; an empty list raises \<^verbatim>\<open>IndexError\<close>.\<close>

definition GeomBuilder_buildPoint :: "int \<Rightarrow> 'a handle \<Rightarrow> error + 'a geometry" where
  "GeomBuilder_buildPoint ndims geom =
     (case GeomBuilder_buildCoords ndims geom of
        Inl e \<Rightarrow> Inl e
      | Inr [] \<Rightarrow> Inl IndexError
      | Inr (c # _) \<Rightarrow> Inr (Geometry ''Point'' (Some c) None))"

definition GeomBuilder_buildLineString :: "int \<Rightarrow> 'a handle \<Rightarrow> error + 'a geometry" where
  "GeomBuilder_buildLineString ndims geom =
     (case GeomBuilder_buildCoords ndims geom of
        Inl e \<Rightarrow> Inl e
      | Inr cs \<Rightarrow> Inr (Geometry ''LineString'' (Some (Seq cs)) None))"

definition GeomBuilder_buildLinearRing :: "int \<Rightarrow> 'a handle \<Rightarrow> error + 'a geometry" where
  "GeomBuilder_buildLinearRing ndims geom =
     (case GeomBuilder_buildCoords ndims geom of
        Inl e \<Rightarrow> Inl e
      | Inr cs \<Rightarrow> Inr (Geometry ''LinearRing'' (Some (Seq cs)) None))"

text \<open>
  \<^verbatim>\<open>[p['coordinates'] for p in parts]\<close>: a part without the key \<^verbatim>\<open>'coordinates'\<close>
  raises \<^verbatim>\<open>KeyError\<close>.
\<close>

fun part_coordinates :: "'a geometry list \<Rightarrow> error + 'a pyval list" where
  "part_coordinates [] = Inr []"
| "part_coordinates (p # ps) =
     (case gcoordinates p of
        None \<Rightarrow> Inl (KeyError_name ''coordinates'')
      | Some c \<Rightarrow>
          (case part_coordinates ps of Inl e \<Rightarrow> Inl e | Inr cs \<Rightarrow> Inr (c # cs)))"

text \<open>
  \<^verbatim>\<open>_buildPolygon\<close>, \<^verbatim>\<open>_buildMultiPoint\<close>, \<^verbatim>\<open>_buildMultiLineString\<close> and
  \<^verbatim>\<open>_buildMultiPolygon\<close> have the same body but for the type name; their argument here
  is what \<^verbatim>\<open>self._buildParts(self.geom)\<close> returned or raised.
\<close>

definition GeomBuilder_buildFromParts ::
  "string \<Rightarrow> error + 'a geometry list \<Rightarrow> error + 'a geometry" where
  "GeomBuilder_buildFromParts typename parts =
     (case parts of
        Inl e \<Rightarrow> Inl e
      | Inr ps \<Rightarrow>
          (case part_coordinates ps of
             Inl e \<Rightarrow> Inl e
           | Inr cs \<Rightarrow> Inr (Geometry typename (Some (Seq cs)) None)))"

text \<open>\<^verbatim>\<open>_buildGeometryCollection\<close>\<close>

definition GeomBuilder_buildGeometryCollection ::
  "error + 'a geometry list \<Rightarrow> error + 'a geometry" where
  "GeomBuilder_buildGeometryCollection parts =
     (case parts of
        Inl e \<Rightarrow> Inl e
      | Inr ps \<Rightarrow> Inr (Geometry ''GeometryCollection'' None (Some ps)))"

text \<open>
  \<^verbatim>\<open>build\<close> on a handle that is not NULL, and \<^verbatim>\<open>_buildParts\<close> on the children
  \<^verbatim>\<open>OGR_G_GetGeometryRef(geom, j)\<close> for \<^verbatim>\<open>j\<close> in \<^verbatim>\<open>range(OGR_G_GetGeometryCount(geom))\<close>,
  each decoded by a new \<^verbatim>\<open>GeomBuilder\<close>. The recursion runs over the list of children,
  which is the list of these references in index order (lemma \<open>children_by_index\<close>).
  \<^verbatim>\<open>getattr(self, '_build' + name)\<close> finds a method for eight names and raises
  \<^verbatim>\<open>AttributeError\<close> for any other.
\<close>

fun GeomBuilder_build_geom :: "'a OGRGeometry \<Rightarrow> error + 'a geometry"
  and GeomBuilder_buildParts :: "'a OGRGeometry list \<Rightarrow> error + 'a geometry list" where
  "GeomBuilder_build_geom (OGRGeometry t d ps gs) =
     (let geom = OGRGeometry t d ps gs;
          etype = OGR_G_GetGeometryType geom;
          code = uint etype
      in case geomtypename code of
           Inl e \<Rightarrow> Inl e
         | Inr name \<Rightarrow>
             let ndims = OGR_G_GetCoordinateDimension geom in
             if name = ''Point'' then GeomBuilder_buildPoint ndims (Some geom)
             else if name = ''LineString'' then GeomBuilder_buildLineString ndims (Some geom)
             else if name = ''LinearRing'' then GeomBuilder_buildLinearRing ndims (Some geom)
             else if name = ''Polygon'' then
               GeomBuilder_buildFromParts ''Polygon'' (GeomBuilder_buildParts gs)
             else if name = ''MultiPoint'' then
               GeomBuilder_buildFromParts ''MultiPoint'' (GeomBuilder_buildParts gs)
             else if name = ''MultiLineString'' then
               GeomBuilder_buildFromParts ''MultiLineString'' (GeomBuilder_buildParts gs)
             else if name = ''MultiPolygon'' then
               GeomBuilder_buildFromParts ''MultiPolygon'' (GeomBuilder_buildParts gs)
             else if name = ''GeometryCollection'' then
               GeomBuilder_buildGeometryCollection (GeomBuilder_buildParts gs)
             else Inl (AttributeError (''_build'' @ name)))"
| "GeomBuilder_buildParts [] = Inr []"
| "GeomBuilder_buildParts (part # rest) =
     (case GeomBuilder_build_geom part of
        Inl e \<Rightarrow> Inl e
      | Inr p \<Rightarrow>
          (case GeomBuilder_buildParts rest of Inl e \<Rightarrow> Inl e | Inr ps \<Rightarrow> Inr (p # ps)))"

text \<open>\<^verbatim>\<open>GeomBuilder.build\<close>: a NULL handle raises \<^verbatim>\<open>ValueError("Null geom")\<close>.\<close>

definition GeomBuilder_build :: "'a handle \<Rightarrow> error + 'a geometry" where
  "GeomBuilder_build geom =
     (case geom of None \<Rightarrow> Inl NullGeom | Some g \<Rightarrow> GeomBuilder_build_geom g)"


subsection \<open>\<^verbatim>\<open>OGRGeomBuilder\<close>: from a geometry mapping to a handle\<close>

text \<open>\<^verbatim>\<open>_createOgrGeometry\<close>: a NULL from the engine raises \<^verbatim>\<open>Exception\<close>.\<close>

definition OGRGeomBuilder_createOgrGeometry ::
  "int \<Rightarrow> engine \<Rightarrow> engine \<times> (error + 'a OGRGeometry)" where
  "OGRGeomBuilder_createOgrGeometry geom_type s =
     (case OGR_G_CreateGeometry geom_type s of
        (s1, None) \<Rightarrow> (s1, Inl (CreateFailed geom_type))
      | (s1, Some cogr_geometry) \<Rightarrow> (s1, Inr cogr_geometry))"

text \<open>\<^verbatim>\<open>self._createOgrGeometry(GEOJSON2OGR_GEOMETRY_TYPES[name])\<close>\<close>

definition create_by_name :: "string \<Rightarrow> engine \<Rightarrow> engine \<times> (error + 'a OGRGeometry)" where
  "create_by_name name s =
     (case GEOJSON2OGR_GEOMETRY_TYPES_getitem name of
        Inl e \<Rightarrow> (s, Inl e)
      | Inr geom_type \<Rightarrow> OGRGeomBuilder_createOgrGeometry geom_type s)"

text \<open>
  \<^verbatim>\<open>_addPointToGeometry\<close>: with \<^verbatim>\<open>len(coordinate) == 2\<close> the two values are unpacked
  and added by the 2D call; otherwise \<^verbatim>\<open>coordinate[:3]\<close> is unpacked into three values
  (a \<^verbatim>\<open>ValueError\<close> when the slice has fewer) and added by the 3D call.
\<close>

definition OGRGeomBuilder_addPointToGeometry ::
  "'a::zero OGRGeometry \<Rightarrow> 'a pyval \<Rightarrow> error + 'a OGRGeometry" where
  "OGRGeomBuilder_addPointToGeometry cogr_geometry coordinate =
     (case py_len coordinate of
        Inl e \<Rightarrow> Inl e
      | Inr n \<Rightarrow>
          (case py_iter coordinate of
             Inl e \<Rightarrow> Inl e
           | Inr vs \<Rightarrow>
               if n = 2 then
                 (case vs of
                    [x, y] \<Rightarrow>
                      (case py_float x of
                         Inl e \<Rightarrow> Inl e
                       | Inr x' \<Rightarrow>
                           (case py_float y of
                              Inl e \<Rightarrow> Inl e
                            | Inr y' \<Rightarrow> Inr (OGR_G_AddPoint_2D cogr_geometry x' y')))
                  | _ \<Rightarrow> Inl (UnpackError (length vs)))
               else
                 (case take 3 vs of
                    [x, y, z] \<Rightarrow>
                      (case py_float x of
                         Inl e \<Rightarrow> Inl e
                       | Inr x' \<Rightarrow>
                           (case py_float y of
                              Inl e \<Rightarrow> Inl e
                            | Inr y' \<Rightarrow>
                                (case py_float z of
                                   Inl e \<Rightarrow> Inl e
                                 | Inr z' \<Rightarrow> Inr (OGR_G_AddPoint cogr_geometry x' y' z'))))
                  | ws \<Rightarrow> Inl (UnpackError (length ws)))))"

text \<open>The loop \<^verbatim>\<open>for coordinate in coordinates: self._addPointToGeometry(...)\<close>.\<close>

fun add_points :: "'a::zero OGRGeometry \<Rightarrow> 'a pyval list \<Rightarrow> error + 'a OGRGeometry" where
  "add_points cogr_geometry [] = Inr cogr_geometry"
| "add_points cogr_geometry (coordinate # rest) =
     (case OGRGeomBuilder_addPointToGeometry cogr_geometry coordinate of
        Inl e \<Rightarrow> Inl e
      | Inr g \<Rightarrow> add_points g rest)"

text \<open>
  The loop \<^verbatim>\<open>for x in xs: part = self._buildX(x); OGR_G_AddGeometryDirectly(geom, part)\<close>
  of the four collection builders, for the builder \<open>build_part\<close> of one part.
\<close>

fun add_parts ::
  "(engine \<Rightarrow> 'b \<Rightarrow> engine \<times> (error + 'a OGRGeometry)) \<Rightarrow> engine \<Rightarrow> 'a OGRGeometry \<Rightarrow> 'b list
     \<Rightarrow> engine \<times> (error + 'a OGRGeometry)" where
  "add_parts build_part s cogr_geometry [] = (s, Inr cogr_geometry)"
| "add_parts build_part s cogr_geometry (x # rest) =
     (case build_part s x of
        (s1, Inl e) \<Rightarrow> (s1, Inl e)
      | (s1, Inr cogr_part) \<Rightarrow>
          add_parts build_part s1 (OGR_G_AddGeometryDirectly cogr_geometry cogr_part) rest)"

definition OGRGeomBuilder_buildPoint ::
  "engine \<Rightarrow> 'a::zero pyval \<Rightarrow> engine \<times> (error + 'a OGRGeometry)" where
  "OGRGeomBuilder_buildPoint s coordinates =
     (case create_by_name ''Point'' s of
        (s1, Inl e) \<Rightarrow> (s1, Inl e)
      | (s1, Inr cogr_geometry) \<Rightarrow>
          (s1, OGRGeomBuilder_addPointToGeometry cogr_geometry coordinates))"

definition OGRGeomBuilder_buildLineString ::
  "engine \<Rightarrow> 'a::zero pyval \<Rightarrow> engine \<times> (error + 'a OGRGeometry)" where
  "OGRGeomBuilder_buildLineString s coordinates =
     (case create_by_name ''LineString'' s of
        (s1, Inl e) \<Rightarrow> (s1, Inl e)
      | (s1, Inr cogr_geometry) \<Rightarrow>
          (case py_iter coordinates of
             Inl e \<Rightarrow> (s1, Inl e)
           | Inr cs \<Rightarrow> (s1, add_points cogr_geometry cs)))"

definition OGRGeomBuilder_buildLinearRing ::
  "engine \<Rightarrow> 'a::zero pyval \<Rightarrow> engine \<times> (error + 'a OGRGeometry)" where
  "OGRGeomBuilder_buildLinearRing s coordinates =
     (case create_by_name ''LinearRing'' s of
        (s1, Inl e) \<Rightarrow> (s1, Inl e)
      | (s1, Inr cogr_geometry) \<Rightarrow>
          (case py_iter coordinates of
             Inl e \<Rightarrow> (s1, Inl e)
           | Inr cs \<Rightarrow>
               (case add_points cogr_geometry cs of
                  Inl e \<Rightarrow> (s1, Inl e)
                | Inr g \<Rightarrow> (s1, Inr (OGR_G_CloseRings g)))))"

definition OGRGeomBuilder_buildPolygon ::
  "engine \<Rightarrow> 'a::zero pyval \<Rightarrow> engine \<times> (error + 'a OGRGeometry)" where
  "OGRGeomBuilder_buildPolygon s coordinates =
     (case create_by_name ''Polygon'' s of
        (s1, Inl e) \<Rightarrow> (s1, Inl e)
      | (s1, Inr cogr_geometry) \<Rightarrow>
          (case py_iter coordinates of
             Inl e \<Rightarrow> (s1, Inl e)
           | Inr rings \<Rightarrow> add_parts OGRGeomBuilder_buildLinearRing s1 cogr_geometry rings))"

definition OGRGeomBuilder_buildMultiPoint ::
  "engine \<Rightarrow> 'a::zero pyval \<Rightarrow> engine \<times> (error + 'a OGRGeometry)" where
  "OGRGeomBuilder_buildMultiPoint s coordinates =
     (case create_by_name ''MultiPoint'' s of
        (s1, Inl e) \<Rightarrow> (s1, Inl e)
      | (s1, Inr cogr_geometry) \<Rightarrow>
          (case py_iter coordinates of
             Inl e \<Rightarrow> (s1, Inl e)
           | Inr cs \<Rightarrow> add_parts OGRGeomBuilder_buildPoint s1 cogr_geometry cs))"

definition OGRGeomBuilder_buildMultiLineString ::
  "engine \<Rightarrow> 'a::zero pyval \<Rightarrow> engine \<times> (error + 'a OGRGeometry)" where
  "OGRGeomBuilder_buildMultiLineString s coordinates =
     (case create_by_name ''MultiLineString'' s of
        (s1, Inl e) \<Rightarrow> (s1, Inl e)
      | (s1, Inr cogr_geometry) \<Rightarrow>
          (case py_iter coordinates of
             Inl e \<Rightarrow> (s1, Inl e)
           | Inr ls \<Rightarrow> add_parts OGRGeomBuilder_buildLineString s1 cogr_geometry ls))"

definition OGRGeomBuilder_buildMultiPolygon ::
  "engine \<Rightarrow> 'a::zero pyval \<Rightarrow> engine \<times> (error + 'a OGRGeometry)" where
  "OGRGeomBuilder_buildMultiPolygon s coordinates =
     (case create_by_name ''MultiPolygon'' s of
        (s1, Inl e) \<Rightarrow> (s1, Inl e)
      | (s1, Inr cogr_geometry) \<Rightarrow>
          (case py_iter coordinates of
             Inl e \<Rightarrow> (s1, Inl e)
           | Inr ps \<Rightarrow> add_parts OGRGeomBuilder_buildPolygon s1 cogr_geometry ps))"

text \<open>
  \<^verbatim>\<open>OGRGeomBuilder.build\<close>, and the loop of \<^verbatim>\<open>_buildGeometryCollection\<close>, which
  calls \<^verbatim>\<open>OGRGeomBuilder().build(part)\<close> for each part. A geometry collection without
  the key \<^verbatim>\<open>'geometries'\<close> has its handle created before the loop over \<^verbatim>\<open>None\<close> raises
  \<^verbatim>\<open>TypeError\<close>.
\<close>

fun OGRGeomBuilder_build ::
    "engine \<Rightarrow> 'a::zero geometry \<Rightarrow> engine \<times> (error + 'a OGRGeometry)"
  and buildGeometryCollection_loop ::
    "engine \<Rightarrow> 'a OGRGeometry \<Rightarrow> 'a geometry list \<Rightarrow> engine \<times> (error + 'a OGRGeometry)" where
  "OGRGeomBuilder_build s (Geometry typename coords geometries) =
     (let coordinates = dict_get coords in
      if typename = ''Point'' then OGRGeomBuilder_buildPoint s coordinates
      else if typename = ''LineString'' then OGRGeomBuilder_buildLineString s coordinates
      else if typename = ''LinearRing'' then OGRGeomBuilder_buildLinearRing s coordinates
      else if typename = ''Polygon'' then OGRGeomBuilder_buildPolygon s coordinates
      else if typename = ''MultiPoint'' then OGRGeomBuilder_buildMultiPoint s coordinates
      else if typename = ''MultiLineString'' then OGRGeomBuilder_buildMultiLineString s coordinates
      else if typename = ''MultiPolygon'' then OGRGeomBuilder_buildMultiPolygon s coordinates
      else if typename = ''GeometryCollection'' then
        (case create_by_name ''GeometryCollection'' s of
           (s1, Inl e) \<Rightarrow> (s1, Inl e)
         | (s1, Inr cogr_geometry) \<Rightarrow>
             (case geometries of
                None \<Rightarrow> (s1, Inl TypeError)
              | Some parts \<Rightarrow> buildGeometryCollection_loop s1 cogr_geometry parts))
      else (s, Inl (UnsupportedType typename)))"
| "buildGeometryCollection_loop s cogr_geometry [] = (s, Inr cogr_geometry)"
| "buildGeometryCollection_loop s cogr_geometry (part # rest) =
     (case OGRGeomBuilder_build s part of
        (s1, Inl e) \<Rightarrow> (s1, Inl e)
      | (s1, Inr cogr_part) \<Rightarrow>
          buildGeometryCollection_loop s1
            (OGR_G_AddGeometryDirectly cogr_geometry cogr_part) rest)"

subsection \<open>The module's functions\<close>

text \<open>\<^verbatim>\<open>geometry(geom)\<close>\<close>

definition geometry_factory :: "'a handle \<Rightarrow> error + 'a geometry" where
  "geometry_factory geom = GeomBuilder_build geom"

text \<open>
  \<^verbatim>\<open>geometryRT\<close>: encode, decode, delete the handle, return the decoded mapping. The
  handle is deleted only when both calls before it have returned.
\<close>

definition geometryRT :: "engine \<Rightarrow> 'a::zero geometry \<Rightarrow> engine \<times> (error + 'a geometry)" where
  "geometryRT s geometry =
     (case OGRGeomBuilder_build s geometry of
        (s1, Inl e) \<Rightarrow> (s1, Inl e)
      | (s1, Inr cogr_geometry) \<Rightarrow>
          (case GeomBuilder_build (Some cogr_geometry) of
             Inl e \<Rightarrow> (s1, Inl e)
           | Inr result \<Rightarrow> (deleteOgrGeom (Some cogr_geometry) s1, Inr result)))"

section \<open>Vocabulary of the properties\<close>

text \<open>The eight type names that have a \<^verbatim>\<open>_build*\<close> method in both builders.\<close>

definition handled_type_names :: "string list" where
  "handled_type_names =
     [''Point'', ''LineString'', ''LinearRing'', ''Polygon'', ''MultiPoint'',
      ''MultiLineString'', ''MultiPolygon'', ''GeometryCollection'']"

fun is_num :: "'a pyval \<Rightarrow> bool" where
  "is_num (Num x) = True"
| "is_num v = False"

fun is_seq :: "'a pyval \<Rightarrow> bool" where
  "is_seq (Seq vs) = True"
| "is_seq v = False"

text \<open>
  No coordinate in a value has a third component: a sequence that holds a number is a
  coordinate, and has two entries at most.
\<close>

fun has_no_z :: "'a pyval \<Rightarrow> bool" where
  "has_no_z PyNone = True"
| "has_no_z (Num x) = True"
| "has_no_z (Seq vs) = (((\<exists>v \<in> set vs. is_num v) \<longrightarrow> length vs \<le> 2) \<and> (\<forall>v \<in> set vs. has_no_z v))"

fun geometry_has_no_z :: "'a geometry \<Rightarrow> bool" where
  "geometry_has_no_z (Geometry t c gs) =
     ((case c of None \<Rightarrow> True | Some v \<Rightarrow> has_no_z v)
      \<and> (case gs of None \<Rightarrow> True | Some parts \<Rightarrow> \<forall>p \<in> set parts. geometry_has_no_z p))"

text \<open>Every object of a geometry, the root and all descendants, reports dimension 2.\<close>

fun every_node_2D :: "'a OGRGeometry \<Rightarrow> bool" where
  "every_node_2D (OGRGeometry t d ps gs) =
     (OGR_G_GetCoordinateDimension (OGRGeometry t d ps gs) = 2 \<and> (\<forall>g \<in> set gs. every_node_2D g))"

text \<open>The point the engine stores for a coordinate of two, or of three or more, numbers.\<close>

fun point_of :: "'a::zero pyval \<Rightarrow> 'a \<times> 'a \<times> 'a" where
  "point_of (Seq [Num x, Num y]) = (x, y, 0)"
| "point_of (Seq (Num x # Num y # Num z # rest)) = (x, y, z)"
| "point_of v = (0, 0, 0)"

text \<open>The coordinate \<^verbatim>\<open>_buildCoords\<close> emits for a stored point under the dimension \<open>ndims\<close>.\<close>

definition coord_of :: "int \<Rightarrow> 'a \<times> 'a \<times> 'a \<Rightarrow> 'a pyval" where
  "coord_of ndims p =
     Seq ([Num (fst p), Num (fst (snd p))] @ (if ndims > 2 then [Num (snd (snd p))] else []))"

text \<open>A coordinate is a pair or a triple of numbers.\<close>

fun is_xy :: "'a pyval \<Rightarrow> bool" where
  "is_xy (Seq [Num x, Num y]) = True"
| "is_xy v = False"

fun is_xyz :: "'a pyval \<Rightarrow> bool" where
  "is_xyz (Seq [Num x, Num y, Num z]) = True"
| "is_xyz v = False"

definition is_coordinate :: "'a pyval \<Rightarrow> bool" where
  "is_coordinate v = (is_xy v \<or> is_xyz v)"

text \<open>
  A builder accounts for its objects: when it returns a handle, the count of allocated
  objects has grown by the objects of that handle; when it raises, the count has not
  gone down.
\<close>

definition accounts :: "(engine \<Rightarrow> 'b \<Rightarrow> engine \<times> (error + 'a OGRGeometry)) \<Rightarrow> bool" where
  "accounts build_part =
     (\<forall>s x s1 r. build_part s x = (s1, r) \<longrightarrow>
        (case r of Inl e \<Rightarrow> live s \<le> live s1 | Inr h \<Rightarrow> live s1 = live s + node_count h))"

text \<open>
  Well-formed coordinate data. A line is a sequence of coordinates that are all pairs or
  all triples; a closed ring is a line that is empty or whose first and last coordinates
  are equal; a polygon is a sequence of closed rings.
\<close>

definition is_line :: "'a pyval list \<Rightarrow> bool" where
  "is_line cs = (list_all is_xy cs \<or> list_all is_xyz cs)"

definition is_closed_ring :: "'a pyval list \<Rightarrow> bool" where
  "is_closed_ring cs = (is_line cs \<and> (cs = [] \<or> hd cs = last cs))"

definition is_line_value :: "'a pyval \<Rightarrow> bool" where
  "is_line_value v = (case v of Seq cs \<Rightarrow> is_line cs | _ \<Rightarrow> False)"

definition is_ring_value :: "'a pyval \<Rightarrow> bool" where
  "is_ring_value v = (case v of Seq cs \<Rightarrow> is_closed_ring cs | _ \<Rightarrow> False)"

definition is_polygon_value :: "'a pyval \<Rightarrow> bool" where
  "is_polygon_value v = (case v of Seq rings \<Rightarrow> list_all is_ring_value rings | _ \<Rightarrow> False)"

definition wf_coordinates :: "string \<Rightarrow> 'a pyval \<Rightarrow> bool" where
  "wf_coordinates T D =
     (if T = ''Point'' then is_coordinate D
      else if T = ''LineString'' then is_line_value D
      else if T = ''LinearRing'' then is_ring_value D
      else if T = ''Polygon'' then is_polygon_value D
      else if T = ''MultiPoint'' then
        (case D of Seq cs \<Rightarrow> list_all is_coordinate cs | _ \<Rightarrow> False)
      else if T = ''MultiLineString'' then
        (case D of Seq ls \<Rightarrow> list_all is_line_value ls | _ \<Rightarrow> False)
      else if T = ''MultiPolygon'' then
        (case D of Seq ps \<Rightarrow> list_all is_polygon_value ps | _ \<Rightarrow> False)
      else False)"

text \<open>
  A well-formed geometry mapping: a type name with well-formed data under
  \<^verbatim>\<open>'coordinates'\<close> and no other entry or, for a geometry collection, well-formed
  mappings under \<^verbatim>\<open>'geometries'\<close> and no other entry.
\<close>

fun wf_geometry :: "'a geometry \<Rightarrow> bool" where
  "wf_geometry (Geometry T c gs) =
     (if T = ''GeometryCollection''
      then c = None \<and> (case gs of None \<Rightarrow> False | Some parts \<Rightarrow> \<forall>p \<in> set parts. wf_geometry p)
      else gs = None \<and> (case c of None \<Rightarrow> False | Some D \<Rightarrow> wf_coordinates T D))"

text \<open>
  A builder round-trips the data \<open>x\<close> of the kind \<open>name\<close>: from any engine state it returns
  a handle, and that handle decodes to the mapping of type \<open>name\<close> with the coordinates
  \<open>x\<close>.
\<close>

definition round_trips ::
  "(engine \<Rightarrow> 'a pyval \<Rightarrow> engine \<times> (error + 'a OGRGeometry)) \<Rightarrow> string \<Rightarrow> 'a pyval \<Rightarrow> bool" where
  "round_trips build_part name x =
     (\<forall>s. \<exists>s1 h. build_part s x = (s1, Inr h)
                \<and> GeomBuilder_build_geom h = Inr (Geometry name (Some x) None))"


section \<open>The type tables\<close>

lemma mask_clears_bit31: "\<not> bit (code AND NOT (0x80000000::int)) 31"
proof -
  have e: "(0x80000000::int) = 2 ^ 31" by simp
  show ?thesis unfolding e by (simp add: bit_and_iff bit_not_iff bit_exp_iff)
qed

lemma bit31_of_3D_code:
  assumes "0 \<le> k" "k < 0x80000000"
  shows "bit ((0x80000000::int) + k) 31"
proof -
  have e: "(0x80000000::int) = 2 ^ 31" by simp
  have "((2::int) ^ 31 + k) div 2 ^ 31 = 1" using assms by (simp add: div_pos_pos_trivial)
  then show ?thesis unfolding e by (simp add: bit_iff_odd)
qed

lemma masked_not_3D_key:
  assumes "0 \<le> k" "k < 0x80000000"
  shows "code AND NOT (0x80000000::int) \<noteq> 0x80000000 + k"
  using mask_clears_bit31 [of code] bit31_of_3D_code [OF assms] by metis

lemma masked_not_3D_keys:
  fixes code :: int
  defines "m \<equiv> code AND NOT 0x80000000"
  shows "m \<noteq> 0x80000001" "m \<noteq> 0x80000002" "m \<noteq> 0x80000003" "m \<noteq> 0x80000004"
    "m \<noteq> 0x80000005" "m \<noteq> 0x80000006" "m \<noteq> 0x80000007"
  using masked_not_3D_key [of 1 code] masked_not_3D_key [of 2 code] masked_not_3D_key [of 3 code]
    masked_not_3D_key [of 4 code] masked_not_3D_key [of 5 code] masked_not_3D_key [of 6 code]
    masked_not_3D_key [of 7 code]
  by (simp_all add: m_def)

lemma geomtypename_values:
  "geomtypename 1 = Inr ''Point''" "geomtypename 2 = Inr ''LineString''"
  "geomtypename 3 = Inr ''Polygon''" "geomtypename 4 = Inr ''MultiPoint''"
  "geomtypename 5 = Inr ''MultiLineString''" "geomtypename 6 = Inr ''MultiPolygon''"
  "geomtypename 7 = Inr ''GeometryCollection''" "geomtypename 101 = Inr ''LinearRing''"
  "geomtypename 0 = Inr ''Unknown''" "geomtypename 100 = Inr ''None''"
  "geomtypename 0x80000001 = Inr ''Point''" "geomtypename 0x80000002 = Inr ''LineString''"
  "geomtypename 0x80000003 = Inr ''Polygon''" "geomtypename 0x80000004 = Inr ''MultiPoint''"
  "geomtypename 0x80000005 = Inr ''MultiLineString''"
  "geomtypename 0x80000006 = Inr ''MultiPolygon''"
  "geomtypename 0x80000007 = Inr ''GeometryCollection''"
  "geomtypename 0x80000065 = Inr ''LinearRing''"
  by (simp_all add: geomtypename_def GEOMETRY_TYPES_getitem_def GEOMETRY_TYPES_def)

text \<open>
  C5. A code whose value with bit 31 cleared is none of the base codes 0 to 7, 100 and
  101 has no name: the lookup of line 119 raises \<^verbatim>\<open>KeyError\<close> (the spec's
  \<open>UnknownTypeCode\<close>) for the masked code. No name, \<^verbatim>\<open>'Unknown'\<close> or other, is
  returned in its place.
\<close>

theorem geomtypename_unknown_code:
  assumes "code AND NOT 0x80000000 \<notin> {0, 1, 2, 3, 4, 5, 6, 7, 100, 101}"
  shows "geomtypename code = Inl (KeyError_code (code AND NOT 0x80000000))"
  using assms masked_not_3D_keys [of code]
  by (simp add: geomtypename_def GEOMETRY_TYPES_getitem_def GEOMETRY_TYPES_def)

theorem geomtypename_unknown_code_witness:
  "(999::int) AND NOT 0x80000000 \<notin> {0, 1, 2, 3, 4, 5, 6, 7, 100, 101}
   \<and> geomtypename 999 = Inl (KeyError_code 999)"
  using geomtypename_unknown_code [of 999] by simp

text \<open>
  C8. For a base code \<open>b\<close> from 1 (Point) to 7 (GeometryCollection), clearing bit 31 of
  the 3D-flagged code \<open>b | 0x80000000\<close> gives \<open>b\<close> back, and the lookup of line 119
  returns one and the same name for \<open>b\<close> and for \<open>b | 0x80000000\<close>.
\<close>

theorem geomtypename_3D_flag:
  assumes "b \<in> {1, 2, 3, 4, 5, 6, 7}"
  shows "(b OR 0x80000000) AND NOT 0x80000000 = b
         \<and> geomtypename (b OR 0x80000000) = geomtypename b
         \<and> (\<exists>name. geomtypename b = Inr name)"
proof -
  from assms have "b = 1 \<or> b = 2 \<or> b = 3 \<or> b = 4 \<or> b = 5 \<or> b = 6 \<or> b = 7"
    by simp
  then show ?thesis
    by (elim disjE) (simp_all add: geomtypename_values)
qed

theorem geomtypename_3D_flag_witness:
  "(3::int) \<in> {1, 2, 3, 4, 5, 6, 7} \<and> (3 OR 0x80000000) AND NOT 0x80000000 = (3::int)
   \<and> geomtypename (3 OR 0x80000000) = Inr ''Polygon'' \<and> geomtypename 3 = Inr ''Polygon''"
  using geomtypename_3D_flag [of 3]
  by (simp add: geomtypename_values)

lemma inverse_table_dom:
  "dom (fold (\<lambda>(k, v) m. m(v \<mapsto> k)) xs m0) = snd ` set xs \<union> dom m0"
  by (induction xs arbitrary: m0) (auto split: prod.splits)

lemma GEOJSON2OGR_values:
  "GEOJSON2OGR_GEOMETRY_TYPES_getitem ''Point'' = Inr 1"
  "GEOJSON2OGR_GEOMETRY_TYPES_getitem ''LineString'' = Inr 2"
  "GEOJSON2OGR_GEOMETRY_TYPES_getitem ''Polygon'' = Inr 3"
  "GEOJSON2OGR_GEOMETRY_TYPES_getitem ''MultiPoint'' = Inr 4"
  "GEOJSON2OGR_GEOMETRY_TYPES_getitem ''MultiLineString'' = Inr 5"
  "GEOJSON2OGR_GEOMETRY_TYPES_getitem ''MultiPolygon'' = Inr 6"
  "GEOJSON2OGR_GEOMETRY_TYPES_getitem ''GeometryCollection'' = Inr 7"
  "GEOJSON2OGR_GEOMETRY_TYPES_getitem ''LinearRing'' = Inr 101"
  by (simp_all add: GEOJSON2OGR_GEOMETRY_TYPES_getitem_def GEOJSON2OGR_GEOMETRY_TYPES_def
      GEOMETRY_TYPES_def)

lemma GEOJSON2OGR_other_values:
  "GEOJSON2OGR_GEOMETRY_TYPES_getitem ''Unknown'' = Inr 0"
  "GEOJSON2OGR_GEOMETRY_TYPES_getitem ''None'' = Inr 100"
  "GEOJSON2OGR_GEOMETRY_TYPES_getitem ''3D Point'' = Inr 0x80000001"
  "GEOJSON2OGR_GEOMETRY_TYPES_getitem ''3D LineString'' = Inr 0x80000002"
  "GEOJSON2OGR_GEOMETRY_TYPES_getitem ''3D Polygon'' = Inr 0x80000003"
  "GEOJSON2OGR_GEOMETRY_TYPES_getitem ''3D MultiPoint'' = Inr 0x80000004"
  "GEOJSON2OGR_GEOMETRY_TYPES_getitem ''3D MultiLineString'' = Inr 0x80000005"
  "GEOJSON2OGR_GEOMETRY_TYPES_getitem ''3D MultiPolygon'' = Inr 0x80000006"
  "GEOJSON2OGR_GEOMETRY_TYPES_getitem ''3D GeometryCollection'' = Inr 0x80000007"
  by (simp_all add: GEOJSON2OGR_GEOMETRY_TYPES_getitem_def GEOJSON2OGR_GEOMETRY_TYPES_def
      GEOMETRY_TYPES_def)

text \<open>
  C7, as the claim states it, fails: the inverse table is built from every item of
  \<^verbatim>\<open>GEOMETRY_TYPES\<close>, so the name \<^verbatim>\<open>'Unknown'\<close>, which is none of the eight
  constructible kinds, has the code 0.
\<close>

theorem GEOJSON2OGR_returns_code_for_Unknown:
  "''Unknown'' \<notin> set handled_type_names
   \<and> GEOJSON2OGR_GEOMETRY_TYPES_getitem ''Unknown'' = Inr 0"
  by (simp add: handled_type_names_def GEOJSON2OGR_other_values)

text \<open>
  C7, amended. The lookup \<^verbatim>\<open>GEOJSON2OGR_GEOMETRY_TYPES[name]\<close> raises \<^verbatim>\<open>KeyError\<close>
  (the spec's \<open>UnknownTypeName\<close>) for every name that is not a value of
  \<^verbatim>\<open>GEOMETRY_TYPES\<close>, and returns the code for each of the seventeen names that are:
  the eight constructible kinds, and also \<^verbatim>\<open>'Unknown'\<close>, \<^verbatim>\<open>'None'\<close> and the seven 3D
  names.
\<close>

theorem GEOJSON2OGR_getitem_total_on_table:
  "(name \<notin> snd ` set GEOMETRY_TYPES \<longrightarrow>
      GEOJSON2OGR_GEOMETRY_TYPES_getitem name = Inl (KeyError_name name))
   \<and> (\<forall>(code, n) \<in> set GEOMETRY_TYPES. GEOJSON2OGR_GEOMETRY_TYPES_getitem n = Inr code)"
proof
  show "name \<notin> snd ` set GEOMETRY_TYPES \<longrightarrow>
      GEOJSON2OGR_GEOMETRY_TYPES_getitem name = Inl (KeyError_name name)"
  proof
    assume "name \<notin> snd ` set GEOMETRY_TYPES"
    then have "name \<notin> dom GEOJSON2OGR_GEOMETRY_TYPES"
      by (simp add: GEOJSON2OGR_GEOMETRY_TYPES_def inverse_table_dom)
    then show "GEOJSON2OGR_GEOMETRY_TYPES_getitem name = Inl (KeyError_name name)"
      by (auto simp add: GEOJSON2OGR_GEOMETRY_TYPES_getitem_def split: option.splits)
  qed
  show "\<forall>(code, n) \<in> set GEOMETRY_TYPES. GEOJSON2OGR_GEOMETRY_TYPES_getitem n = Inr code"
    by (simp add: GEOMETRY_TYPES_def GEOJSON2OGR_values GEOJSON2OGR_other_values)
qed

theorem GEOJSON2OGR_getitem_total_on_table_witness:
  "''Circle'' \<notin> snd ` set GEOMETRY_TYPES
   \<and> GEOJSON2OGR_GEOMETRY_TYPES_getitem ''Circle'' = Inl (KeyError_name ''Circle'')
   \<and> (100, ''None'') \<in> set GEOMETRY_TYPES
   \<and> GEOJSON2OGR_GEOMETRY_TYPES_getitem ''None'' = Inr 100"
  using GEOJSON2OGR_getitem_total_on_table [of "''Circle''"]
  by (simp add: GEOMETRY_TYPES_def)

section \<open>Kinds without a builder method\<close>

text \<open>The children that \<^verbatim>\<open>_buildParts\<close> visits by index are the list the model recurses on.\<close>

lemma children_by_index:
  "map (OGR_G_GetGeometryRef g) [0 ..< OGR_G_GetGeometryCount g] = ogr_geoms g"
proof -
  have "OGR_G_GetGeometryRef g = (!) (ogr_geoms g)"
    by (rule ext) (simp add: OGR_G_GetGeometryRef_def)
  then show ?thesis by (simp add: OGR_G_GetGeometryCount_def map_nth)
qed

lemma GeomBuilder_build_unhandled:
  assumes "geomtypename (uint (OGR_G_GetGeometryType g)) = Inr name"
    and "name \<notin> set handled_type_names"
  shows "GeomBuilder_build (Some g) = Inl (AttributeError (''_build'' @ name))"
  using assms
  by (cases g) (simp add: GeomBuilder_build_def handled_type_names_def)

lemma OGRGeomBuilder_build_unhandled:
  assumes "name \<notin> set handled_type_names"
  shows "OGRGeomBuilder_build s (Geometry name c gs) = (s, Inl (UnsupportedType name))"
  using assms by (simp add: handled_type_names_def)

text \<open>
  C4. A type name outside the eight handled names makes both builders fail. The decoder,
  when the handle's masked type code resolves to such a name (\<^verbatim>\<open>'Unknown'\<close> and
  \<^verbatim>\<open>'None'\<close> are the two the table can give), finds no method \<^verbatim>\<open>'_build' + name\<close>
  and raises \<^verbatim>\<open>AttributeError\<close>; the encoder raises
  \<^verbatim>\<open>ValueError("Unsupported geometry type ...")\<close> and creates no handle. Both are the
  spec's \<open>UnsupportedGeometryType\<close>.
\<close>

theorem unhandled_type_name_fails:
  assumes "name \<notin> set handled_type_names"
  shows "(geomtypename (uint (OGR_G_GetGeometryType g)) = Inr name \<longrightarrow>
            GeomBuilder_build (Some g) = Inl (AttributeError (''_build'' @ name)))
         \<and> OGRGeomBuilder_build s (Geometry name c gs) = (s, Inl (UnsupportedType name))"
  using assms GeomBuilder_build_unhandled [of g name] OGRGeomBuilder_build_unhandled [of name s c gs]
  by blast

lemma type_of_unknown: "geomtypename (uint (OGR_G_GetGeometryType (OGRGeometry 0 2 [] []))) = Inr ''Unknown''"
  by (simp add: OGR_G_GetGeometryType_def geomtypename_values)

theorem unhandled_type_name_fails_witness:
  "''Unknown'' \<notin> set handled_type_names
   \<and> geomtypename (uint (OGR_G_GetGeometryType (OGRGeometry 0 2 [] [] :: int OGRGeometry)))
       = Inr ''Unknown''
   \<and> GeomBuilder_build (Some (OGRGeometry 0 2 [] [] :: int OGRGeometry))
       = Inl (AttributeError ''_buildUnknown'')
   \<and> OGRGeomBuilder_build \<lparr>live = 0\<rparr> (Geometry ''Unknown'' (Some (Seq [Num (1::int), Num 2])) None)
       = (\<lparr>live = 0\<rparr>, Inl (UnsupportedType ''Unknown''))"
  using unhandled_type_name_fails [of "''Unknown''" "OGRGeometry 0 2 [] [] :: int OGRGeometry"
      "\<lparr>live = 0\<rparr>" "Some (Seq [Num (1::int), Num 2])" None]
  by (simp add: handled_type_names_def OGR_G_GetGeometryType_def geomtypename_values)

section \<open>Decoding a point\<close>

text \<open>
  C9. A handle that is not NULL, whose type resolves to \<^verbatim>\<open>'Point'\<close> and whose point
  count is zero, makes \<^verbatim>\<open>build\<close> raise \<^verbatim>\<open>IndexError\<close>: \<^verbatim>\<open>_buildPoint\<close> takes
  element 0 of the empty coordinate list, and nothing checks the count before.
\<close>

theorem Point_without_points_IndexError:
  assumes "geomtypename (uint (OGR_G_GetGeometryType g)) = Inr ''Point''"
    and "OGR_G_GetPointCount g = 0"
  shows "GeomBuilder_build (Some g) = Inl IndexError"
  using assms
  by (cases g)
     (simp add: GeomBuilder_build_def GeomBuilder_buildPoint_def GeomBuilder_buildCoords_def)

theorem Point_without_points_IndexError_witness:
  "geomtypename (uint (OGR_G_GetGeometryType (OGRGeometry 1 2 [] [] :: int OGRGeometry)))
     = Inr ''Point''
   \<and> OGR_G_GetPointCount (OGRGeometry 1 2 [] [] :: int OGRGeometry) = 0
   \<and> GeomBuilder_build (Some (OGRGeometry 1 2 [] [] :: int OGRGeometry)) = Inl IndexError"
  using Point_without_points_IndexError [of "OGRGeometry 1 2 [] [] :: int OGRGeometry"]
  by (simp add: OGR_G_GetGeometryType_def OGR_G_GetPointCount_def geomtypename_values)

section \<open>Adding a coordinate\<close>

text \<open>
  C10. \<^verbatim>\<open>_addPointToGeometry\<close> on a coordinate of numbers: with exactly two components
  the 2D call adds the point; with three or more the 3D call adds the first three, and
  the components after the third are dropped; with fewer than two the unpacking of
  \<^verbatim>\<open>coordinate[:3]\<close> raises \<^verbatim>\<open>ValueError\<close>, which is no error of the codec's own.
\<close>

theorem addPointToGeometry_by_length:
  "OGRGeomBuilder_addPointToGeometry g (Seq [Num x, Num y]) = Inr (OGR_G_AddPoint_2D g x y)
   \<and> OGRGeomBuilder_addPointToGeometry g (Seq (Num x # Num y # Num z # rest))
       = Inr (OGR_G_AddPoint g x y z)
   \<and> (length vs < 2 \<longrightarrow>
        OGRGeomBuilder_addPointToGeometry g (Seq vs) = Inl (UnpackError (length vs)))"
proof (intro conjI impI)
  show "OGRGeomBuilder_addPointToGeometry g (Seq [Num x, Num y]) = Inr (OGR_G_AddPoint_2D g x y)"
    by (simp add: OGRGeomBuilder_addPointToGeometry_def py_len_def py_iter_def py_float_def)
  show "OGRGeomBuilder_addPointToGeometry g (Seq (Num x # Num y # Num z # rest))
       = Inr (OGR_G_AddPoint g x y z)"
    by (simp add: OGRGeomBuilder_addPointToGeometry_def py_len_def py_iter_def py_float_def)
  assume "length vs < 2"
  then have "vs = [] \<or> (\<exists>v. vs = [v])"
    by (cases vs) (auto simp: less_Suc_eq)
  then show "OGRGeomBuilder_addPointToGeometry g (Seq vs) = Inl (UnpackError (length vs))"
    by (auto simp add: OGRGeomBuilder_addPointToGeometry_def py_len_def py_iter_def)
qed

theorem addPointToGeometry_by_length_witness:
  "OGRGeomBuilder_addPointToGeometry (OGRGeometry 2 2 [] []) (Seq [Num (1::int), Num 2])
     = Inr (OGRGeometry 2 2 [(1, 2, 0)] [])
   \<and> OGRGeomBuilder_addPointToGeometry (OGRGeometry 2 2 [] [])
        (Seq [Num (1::int), Num 2, Num 3, Num 4, Num 5])
     = Inr (OGRGeometry 2 3 [(1, 2, 3)] [])
   \<and> length [Num (1::int)] < 2
   \<and> OGRGeomBuilder_addPointToGeometry (OGRGeometry 2 2 [] []) (Seq [Num (1::int)])
     = Inl (UnpackError 1)"
  using addPointToGeometry_by_length [of "OGRGeometry 2 2 [] []" "1::int" 2 3 "[Num 4, Num 5]"
      "[Num 1]"]
  by (simp add: OGR_G_AddPoint_2D_def OGR_G_AddPoint_def)

section \<open>Coordinate dimension in the decoder\<close>

lemma buildCoords_2D:
  assumes "ndims \<le> 2"
  shows "\<exists>cs. GeomBuilder_buildCoords ndims (Some g) = Inr cs
              \<and> (\<forall>c \<in> set cs. \<exists>x y. c = Seq [Num x, Num y])"
  using assms by (auto simp add: GeomBuilder_buildCoords_def)

lemma part_coordinates_no_z:
  assumes "part_coordinates ps = Inr cs"
    and "\<forall>p \<in> set ps. geometry_has_no_z p \<and> (\<forall>v. gcoordinates p = Some v \<longrightarrow> is_seq v)"
  shows "\<forall>c \<in> set cs. has_no_z c \<and> is_seq c"
  using assms
proof (induction ps arbitrary: cs)
  case Nil
  then show ?case by simp
next
  case (Cons p ps)
  then show ?case
    by (cases p) (auto split: option.splits sum.splits)
qed

lemma seq_of_seqs_no_z:
  assumes "\<forall>c \<in> set cs. has_no_z c \<and> is_seq c"
  shows "has_no_z (Seq cs)"
proof -
  have "\<not> (\<exists>v \<in> set cs. is_num v)"
  proof
    assume "\<exists>v \<in> set cs. is_num v"
    then obtain v where "v \<in> set cs" "is_num v" by blast
    with assms have "is_seq v" by blast
    with \<open>is_num v\<close> show False by (cases v) simp_all
  qed
  with assms show ?thesis by simp
qed

lemma buildFromParts_no_z:
  assumes "GeomBuilder_buildFromParts name r = Inr t"
    and "\<And>ps. r = Inr ps \<Longrightarrow>
           \<forall>p \<in> set ps. geometry_has_no_z p \<and> (\<forall>v. gcoordinates p = Some v \<longrightarrow> is_seq v)"
  shows "geometry_has_no_z t \<and> (\<forall>v. gcoordinates t = Some v \<longrightarrow> is_seq v)"
proof -
  from assms(1) obtain ps cs where r: "r = Inr ps" and pc: "part_coordinates ps = Inr cs"
    and t: "t = Geometry name (Some (Seq cs)) None"
    by (auto simp add: GeomBuilder_buildFromParts_def split: sum.splits)
  from part_coordinates_no_z [OF pc assms(2) [OF r]] have "has_no_z (Seq cs)"
    by (rule seq_of_seqs_no_z)
  with t show ?thesis by simp
qed

lemma coords_2D_no_z:
  assumes "\<forall>c \<in> set cs. \<exists>x y. c = Seq [Num x, Num y]"
  shows "has_no_z (Seq cs)" "\<forall>c \<in> set cs. has_no_z c"
  using assms by fastforce+

lemma build_geom_dispatch:
  assumes "geomtypename (uint (OGR_G_GetGeometryType g)) = Inr name"
  shows "GeomBuilder_build_geom g =
     (if name = ''Point'' then GeomBuilder_buildPoint (ogr_dim g) (Some g)
      else if name = ''LineString'' then GeomBuilder_buildLineString (ogr_dim g) (Some g)
      else if name = ''LinearRing'' then GeomBuilder_buildLinearRing (ogr_dim g) (Some g)
      else if name \<in> {''Polygon'', ''MultiPoint'', ''MultiLineString'', ''MultiPolygon''}
      then GeomBuilder_buildFromParts name (GeomBuilder_buildParts (ogr_geoms g))
      else if name = ''GeometryCollection''
      then GeomBuilder_buildGeometryCollection (GeomBuilder_buildParts (ogr_geoms g))
      else Inl (AttributeError (''_build'' @ name)))"
  using assms by (cases g) (simp add: Let_def OGR_G_GetCoordinateDimension_def)

lemma build_geom_Inr_name:
  assumes "GeomBuilder_build_geom g = Inr t"
  obtains name where "geomtypename (uint (OGR_G_GetGeometryType g)) = Inr name"
  using assms by (cases g) (auto simp add: Let_def split: sum.splits)

lemma buildParts_forall:
  assumes "GeomBuilder_buildParts gs = Inr ts"
    and "\<And>g t. g \<in> set gs \<Longrightarrow> GeomBuilder_build_geom g = Inr t \<Longrightarrow> R t"
  shows "\<forall>t \<in> set ts. R t"
  using assms
proof (induction gs arbitrary: ts)
  case Nil
  then show ?case by simp
next
  case (Cons g gs)
  from Cons.prems(1) obtain t ts' where g: "GeomBuilder_build_geom g = Inr t"
    and gs: "GeomBuilder_buildParts gs = Inr ts'" and ts: "ts = t # ts'"
    by (auto split: sum.splits)
  have "R t" using Cons.prems(2) [of g t] g by simp
  moreover have "\<forall>t \<in> set ts'. R t"
  proof (rule Cons.IH [OF gs])
    fix g' t' assume "g' \<in> set gs" "GeomBuilder_build_geom g' = Inr t'"
    then show "R t'" using Cons.prems(2) [of g' t'] by simp
  qed
  ultimately show ?case using ts by simp
qed

lemma build_2D_no_z:
  "every_node_2D g \<Longrightarrow> GeomBuilder_build_geom g = Inr t \<Longrightarrow>
     geometry_has_no_z t \<and> (\<forall>v. gcoordinates t = Some v \<longrightarrow> is_seq v)"
proof (induction g arbitrary: t)
  case (OGRGeometry ty d ps gs)
  let ?g = "OGRGeometry ty d ps gs"
  let ?R = "\<lambda>t. geometry_has_no_z t \<and> (\<forall>v. gcoordinates t = Some v \<longrightarrow> is_seq v)"
  from OGRGeometry.prems have d: "d = 2" and kids: "\<forall>g \<in> set gs. every_node_2D g"
    by (simp_all add: OGR_G_GetCoordinateDimension_def)
  from OGRGeometry.prems(2) obtain name
    where nm: "geomtypename (uint (OGR_G_GetGeometryType ?g)) = Inr name"
    by (rule build_geom_Inr_name)
  have eq: "GeomBuilder_build_geom ?g = Inr t" by (rule OGRGeometry.prems(2))
  note disp = build_geom_dispatch [OF nm]
  from buildCoords_2D [of 2 ?g] obtain cs where
    bc: "GeomBuilder_buildCoords 2 (Some ?g) = Inr cs"
    and two: "\<forall>c \<in> set cs. \<exists>x y. c = Seq [Num x, Num y]"
    by auto
  have parts: "\<forall>p \<in> set qs. ?R p" if "GeomBuilder_buildParts gs = Inr qs" for qs
    using that
  proof (rule buildParts_forall)
    fix g t assume "g \<in> set gs" "GeomBuilder_build_geom g = Inr t"
    with OGRGeometry.IH kids show "?R t" by blast
  qed
  consider (pt) "name = ''Point''" | (ls) "name = ''LineString''" | (lr) "name = ''LinearRing''"
    | (fp) "name \<in> {''Polygon'', ''MultiPoint'', ''MultiLineString'', ''MultiPolygon''}"
    | (gc) "name = ''GeometryCollection''"
    | (other) "name \<notin> set handled_type_names"
    unfolding handled_type_names_def by auto
  then show ?case
  proof cases
    case pt
    from eq [unfolded disp] have "GeomBuilder_buildPoint 2 (Some ?g) = Inr t"
      by (simp add: pt d)
    with bc have "\<exists>c rest. cs = c # rest \<and> t = Geometry ''Point'' (Some c) None"
      by (auto simp add: GeomBuilder_buildPoint_def split: list.splits)
    with two show ?thesis by auto
  next
    case ls
    from eq [unfolded disp] have "GeomBuilder_buildLineString 2 (Some ?g) = Inr t"
      by (simp add: ls d)
    with bc have "t = Geometry ''LineString'' (Some (Seq cs)) None"
      by (auto simp add: GeomBuilder_buildLineString_def)
    with coords_2D_no_z(1) [OF two] show ?thesis by simp
  next
    case lr
    from eq [unfolded disp] have "GeomBuilder_buildLinearRing 2 (Some ?g) = Inr t"
      by (simp add: lr d)
    with bc have "t = Geometry ''LinearRing'' (Some (Seq cs)) None"
      by (auto simp add: GeomBuilder_buildLinearRing_def)
    with coords_2D_no_z(1) [OF two] show ?thesis by simp
  next
    case fp
    from eq [unfolded disp] fp
    have "GeomBuilder_buildFromParts name (GeomBuilder_buildParts gs) = Inr t"
      by auto
    from buildFromParts_no_z [OF this] parts show ?thesis by blast
  next
    case gc
    from eq [unfolded disp]
    have "GeomBuilder_buildGeometryCollection (GeomBuilder_buildParts gs) = Inr t"
      by (simp add: gc)
    then obtain qs where q: "GeomBuilder_buildParts gs = Inr qs"
      and t: "t = Geometry ''GeometryCollection'' None (Some qs)"
      by (auto simp add: GeomBuilder_buildGeometryCollection_def split: sum.splits)
    from parts [OF q] t show ?thesis by simp
  next
    case other
    from eq [unfolded disp] other show ?thesis by (auto simp add: handled_type_names_def)
  qed
qed

section \<open>Coordinates through the engine\<close>

lemma is_xy_E:
  assumes "is_xy c" obtains x y where "c = Seq [Num x, Num y]"
  using assms by (induction c rule: is_xy.induct) simp_all

lemma is_xyz_E:
  assumes "is_xyz c" obtains x y z where "c = Seq [Num x, Num y, Num z]"
  using assms by (induction c rule: is_xyz.induct) simp_all

lemma addPoint_xy:
  assumes "is_xy c"
  shows "OGRGeomBuilder_addPointToGeometry g c
         = Inr (OGRGeometry (ogr_type g) (ogr_dim g) (ogr_points g @ [point_of c]) (ogr_geoms g))"
  using assms
  by (elim is_xy_E)
     (simp add: OGRGeomBuilder_addPointToGeometry_def py_len_def py_iter_def py_float_def
        OGR_G_AddPoint_2D_def)

lemma addPoint_xyz:
  assumes "is_xyz c"
  shows "OGRGeomBuilder_addPointToGeometry g c
         = Inr (OGRGeometry (ogr_type g) 3 (ogr_points g @ [point_of c]) (ogr_geoms g))"
  using assms
  by (elim is_xyz_E)
     (simp add: OGRGeomBuilder_addPointToGeometry_def py_len_def py_iter_def py_float_def
        OGR_G_AddPoint_def)

lemma xy_not_xyz: "is_xy c \<Longrightarrow> \<not> is_xyz c"
  by (elim is_xy_E) simp

lemma add_points_coordinates:
  assumes "list_all is_coordinate cs"
  shows "add_points g cs
         = Inr (OGRGeometry (ogr_type g) (if list_ex is_xyz cs then 3 else ogr_dim g)
                  (ogr_points g @ map point_of cs) (ogr_geoms g))"
  using assms
proof (induction cs arbitrary: g)
  case Nil
  then show ?case by simp
next
  case (Cons c cs)
  from Cons.prems have cs: "list_all is_coordinate cs" by simp
  from Cons.prems have c: "is_xy c \<or> is_xyz c" by (simp add: is_coordinate_def)
  from c show ?case
  proof
    assume "is_xy c"
    with Cons.IH [OF cs] xy_not_xyz [of c] show ?thesis by (simp add: addPoint_xy)
  next
    assume "is_xyz c"
    with Cons.IH [OF cs] show ?thesis by (simp add: addPoint_xyz)
  qed
qed

lemma map_over_indices: "map (\<lambda>i. f (xs ! i)) [0 ..< length xs] = map f xs"
  by (rule nth_equalityI) simp_all

lemma buildCoords_eq:
  "GeomBuilder_buildCoords ndims (Some g) = Inr (map (coord_of ndims) (ogr_points g))"
proof -
  have "map (\<lambda>i. coord_of ndims (ogr_points g ! i)) [0 ..< length (ogr_points g)]
        = map (coord_of ndims) (ogr_points g)"
    by (rule map_over_indices)
  then show ?thesis
    unfolding GeomBuilder_buildCoords_def coord_of_def OGR_G_GetPointCount_def
        OGR_G_GetX_def OGR_G_GetY_def OGR_G_GetZ_def
    by simp
qed

lemma coord_of_point_of:
  "is_xy c \<Longrightarrow> d \<le> 2 \<Longrightarrow> coord_of d (point_of c) = c"
  "is_xyz c \<Longrightarrow> d > 2 \<Longrightarrow> coord_of d (point_of c) = c"
  by (auto elim!: is_xy_E is_xyz_E simp add: coord_of_def)

lemma create_by_name_values:
  "create_by_name ''Point'' s = (s\<lparr>live := live s + 1\<rparr>, Inr (OGRGeometry 1 2 [] []))"
  "create_by_name ''LineString'' s = (s\<lparr>live := live s + 1\<rparr>, Inr (OGRGeometry 2 2 [] []))"
  "create_by_name ''Polygon'' s = (s\<lparr>live := live s + 1\<rparr>, Inr (OGRGeometry 3 2 [] []))"
  "create_by_name ''MultiPoint'' s = (s\<lparr>live := live s + 1\<rparr>, Inr (OGRGeometry 4 2 [] []))"
  "create_by_name ''MultiLineString'' s = (s\<lparr>live := live s + 1\<rparr>, Inr (OGRGeometry 5 2 [] []))"
  "create_by_name ''MultiPolygon'' s = (s\<lparr>live := live s + 1\<rparr>, Inr (OGRGeometry 6 2 [] []))"
  "create_by_name ''GeometryCollection'' s
     = (s\<lparr>live := live s + 1\<rparr>, Inr (OGRGeometry 7 2 [] []))"
  "create_by_name ''LinearRing'' s = (s\<lparr>live := live s + 1\<rparr>, Inr (OGRGeometry 101 2 [] []))"
  by (simp_all add: create_by_name_def GEOJSON2OGR_values OGRGeomBuilder_createOgrGeometry_def
      OGR_G_CreateGeometry_def)

lemma type_name_of_created:
  assumes "t \<in> {1, 2, 3, 4, 5, 6, 7, 101}"
  shows "geomtypename (uint (OGR_G_GetGeometryType (OGRGeometry t d ps gs))) = geomtypename t"
proof -
  from assms have "t = 1 \<or> t = 2 \<or> t = 3 \<or> t = 4 \<or> t = 5 \<or> t = 6 \<or> t = 7 \<or> t = 101"
    by simp
  then show ?thesis
    by (elim disjE) (simp_all add: OGR_G_GetGeometryType_def geomtypename_values)
qed

section \<open>Allocated engine objects\<close>

lemma node_count_pos: "0 < node_count g"
proof (induction g)
  case (OGRGeometry t d ps gs)
  then have "0 \<le> sum_list (map node_count gs)"
    by (intro sum_list_nonneg) (auto intro: less_imp_le)
  then show ?case by simp
qed

lemma node_count_AddPoint_2D: "node_count (OGR_G_AddPoint_2D g x y) = node_count g"
  by (cases g) (simp add: OGR_G_AddPoint_2D_def)

lemma node_count_AddPoint: "node_count (OGR_G_AddPoint g x y z) = node_count g"
  by (cases g) (simp add: OGR_G_AddPoint_def)

lemma node_count_CloseRings: "node_count (OGR_G_CloseRings g) = node_count g"
  by (cases g) (simp add: OGR_G_CloseRings_def)

lemma node_count_AddGeometryDirectly:
  "node_count (OGR_G_AddGeometryDirectly g c) = node_count g + node_count c"
  by (cases g) (simp add: OGR_G_AddGeometryDirectly_def)

lemmas node_count_simps = node_count_AddPoint_2D node_count_AddPoint node_count_CloseRings
  node_count_AddGeometryDirectly

lemma addPoint_node_count:
  assumes "OGRGeomBuilder_addPointToGeometry g c = Inr h"
  shows "node_count h = node_count g"
  using assms
  by (auto simp add: OGRGeomBuilder_addPointToGeometry_def node_count_simps
      split: sum.splits list.splits if_splits)

lemma add_points_node_count:
  assumes "add_points g cs = Inr h"
  shows "node_count h = node_count g"
  using assms
proof (induction cs arbitrary: g)
  case Nil
  then show ?case by simp
next
  case (Cons c cs)
  from Cons.prems obtain g1 where a: "OGRGeomBuilder_addPointToGeometry g c = Inr g1"
    and b: "add_points g1 cs = Inr h"
    by (auto split: sum.splits)
  from Cons.IH [OF b] addPoint_node_count [OF a] show ?case by simp
qed

lemma create_by_name_live:
  assumes "create_by_name name s = (s1, r)"
  shows "case r of Inl e \<Rightarrow> live s1 = live s | Inr g \<Rightarrow> live s1 = live s + 1 \<and> node_count g = 1"
  using assms
  by (auto simp add: create_by_name_def OGRGeomBuilder_createOgrGeometry_def
      OGR_G_CreateGeometry_def split: sum.splits option.splits if_splits)

lemma create_by_name_Inr:
  assumes "create_by_name name s = (s1, Inr g)"
  shows "live s1 = live s + 1" "node_count g = 1"
  using create_by_name_live [OF assms] by simp_all

lemma create_by_name_Inl:
  assumes "create_by_name name s = (s1, Inl e)"
  shows "live s1 = live s"
  using create_by_name_live [OF assms] by simp

text \<open>On every exit of \<open>add_parts\<close> the count has not gone down; on the normal exit
  it has grown by the objects added.\<close>

lemma add_parts_live:
  assumes "add_parts build_part s g xs = (s', r)"
    and "\<And>s x s1 h. x \<in> set xs \<Longrightarrow> build_part s x = (s1, Inr h) \<Longrightarrow>
           live s1 = live s + node_count h"
    and "\<And>s x s1 e. x \<in> set xs \<Longrightarrow> build_part s x = (s1, Inl e) \<Longrightarrow> live s \<le> live s1"
  shows "case r of Inl e \<Rightarrow> live s \<le> live s'
         | Inr h \<Rightarrow> live s' = live s + node_count h - node_count g"
  using assms
proof (induction xs arbitrary: s g)
  case Nil
  then show ?case by auto
next
  case (Cons x xs)
  obtain s1 r1 where b: "build_part s x = (s1, r1)" by (cases "build_part s x")
  show ?case
  proof (cases r1)
    case (Inl e)
    with b Cons.prems(1) have "s' = s1" "r = Inl e" by simp_all
    with Cons.prems(3) [of x s s1 e] b Inl show ?thesis by simp
  next
    case (Inr p)
    with b Cons.prems(1)
    have rest: "add_parts build_part s1 (OGR_G_AddGeometryDirectly g p) xs = (s', r)" by simp
    from Cons.prems(2) [of x s s1 p] b Inr have l1: "live s1 = live s + node_count p" by simp
    have "case r of Inl e \<Rightarrow> live s1 \<le> live s'
         | Inr h \<Rightarrow> live s' = live s1 + node_count h - node_count (OGR_G_AddGeometryDirectly g p)"
    proof (rule Cons.IH [OF rest])
      fix s x s1 h assume "x \<in> set xs" "build_part s x = (s1, Inr h)"
      then show "live s1 = live s + node_count h" using Cons.prems(2) [of x s s1 h] by simp
    next
      fix s x s1 e assume "x \<in> set xs" "build_part s x = (s1, Inl e)"
      then show "live s \<le> live s1" using Cons.prems(3) [of x s s1 e] by simp
    qed
    with l1 node_count_pos [of p] show ?thesis
      by (auto simp add: node_count_simps split: sum.splits)
  qed
qed


lemma accountsI:
  assumes "\<And>s x s1 h. build_part s x = (s1, Inr h) \<Longrightarrow> live s1 = live s + node_count h"
    and "\<And>s x s1 e. build_part s x = (s1, Inl e) \<Longrightarrow> live s \<le> live s1"
  shows "accounts build_part"
  unfolding accounts_def using assms by (auto split: sum.splits)

lemma accounts_Inr:
  assumes "accounts build_part" "build_part s x = (s1, Inr h)"
  shows "live s1 = live s + node_count h"
  using assms unfolding accounts_def by fastforce

lemma accounts_Inl:
  assumes "accounts build_part" "build_part s x = (s1, Inl e)"
  shows "live s \<le> live s1"
  using assms unfolding accounts_def by fastforce

text \<open>A builder of one object: create the handle by name, then fill it.\<close>

lemma accounts_leaf:
  fixes build_leaf :: "engine \<Rightarrow> 'b \<Rightarrow> engine \<times> (error + 'a OGRGeometry)"
    and fill :: "'a OGRGeometry \<Rightarrow> 'b \<Rightarrow> error + 'a OGRGeometry"
  assumes def: "\<And>s x. build_leaf s x =
      (case create_by_name name s of
         (s1, Inl e) \<Rightarrow> (s1, Inl e)
       | (s1, Inr g) \<Rightarrow> (s1, fill g x))"
    and fill: "\<And>g x h. fill g x = Inr h \<Longrightarrow> node_count h = node_count g"
  shows "accounts build_leaf"
proof -
  have main: "case r of Inl e \<Rightarrow> live s \<le> live s' | Inr h \<Rightarrow> live s' = live s + node_count h"
    if run: "build_leaf s x = (s', r)" for s x s' r
  proof -
    obtain s1 and r1 :: "error + 'a OGRGeometry" where c: "create_by_name name s = (s1, r1)"
      by (cases "create_by_name name s :: engine \<times> (error + 'a OGRGeometry)") blast
    show ?thesis
    proof (cases r1)
      case (Inl e)
      with c run def [of s x] have "s' = s1" "r = Inl e" by simp_all
      with create_by_name_Inl [OF c [unfolded Inl]] show ?thesis by simp
    next
      case (Inr g)
      note cr = create_by_name_Inr [OF c [unfolded Inr]]
      from c Inr run def [of s x] have "s' = s1" "r = fill g x" by simp_all
      with cr fill [of g x] show ?thesis by (auto split: sum.splits)
    qed
  qed
  show ?thesis unfolding accounts_def using main by blast
qed

lemma accounts_buildPoint: "accounts OGRGeomBuilder_buildPoint"
  by (rule accounts_leaf [where fill = OGRGeomBuilder_addPointToGeometry and name = "''Point''"])
     (simp_all add: OGRGeomBuilder_buildPoint_def addPoint_node_count)

lemma accounts_buildLineString: "accounts OGRGeomBuilder_buildLineString"
proof (rule accounts_leaf [where name = "''LineString''"
      and fill = "\<lambda>g x. case py_iter x of Inl e \<Rightarrow> Inl e | Inr cs \<Rightarrow> add_points g cs"])
  show "OGRGeomBuilder_buildLineString s x =
      (case create_by_name ''LineString'' s of
         (s1, Inl e) \<Rightarrow> (s1, Inl e)
       | (s1, Inr g) \<Rightarrow>
           (s1, case py_iter x of Inl e \<Rightarrow> Inl e | Inr cs \<Rightarrow> add_points g cs))" for s x
    by (simp add: OGRGeomBuilder_buildLineString_def split: prod.splits sum.splits)
  show "node_count h = node_count g"
    if "(case py_iter x of Inl e \<Rightarrow> Inl e | Inr cs \<Rightarrow> add_points g cs) = Inr h" for g x h
    using that by (auto split: sum.splits dest: add_points_node_count)
qed

lemma accounts_buildLinearRing: "accounts OGRGeomBuilder_buildLinearRing"
proof (rule accounts_leaf [where name = "''LinearRing''"
      and fill = "\<lambda>g x. case py_iter x of Inl e \<Rightarrow> Inl e
                    | Inr cs \<Rightarrow> (case add_points g cs of Inl e \<Rightarrow> Inl e
                                | Inr g1 \<Rightarrow> Inr (OGR_G_CloseRings g1))"])
  show "OGRGeomBuilder_buildLinearRing s x =
      (case create_by_name ''LinearRing'' s of
         (s1, Inl e) \<Rightarrow> (s1, Inl e)
       | (s1, Inr g) \<Rightarrow>
           (s1, case py_iter x of Inl e \<Rightarrow> Inl e
                | Inr cs \<Rightarrow> (case add_points g cs of Inl e \<Rightarrow> Inl e
                            | Inr g1 \<Rightarrow> Inr (OGR_G_CloseRings g1))))" for s x
    by (simp add: OGRGeomBuilder_buildLinearRing_def split: prod.splits sum.splits)
  show "node_count h = node_count g"
    if "(case py_iter x of Inl e \<Rightarrow> Inl e
         | Inr cs \<Rightarrow> (case add_points g cs of Inl e \<Rightarrow> Inl e
                     | Inr g1 \<Rightarrow> Inr (OGR_G_CloseRings g1))) = Inr h" for g x h
    using that
    by (auto split: sum.splits dest: add_points_node_count simp add: node_count_simps)
qed

text \<open>A collection builder: create the handle by name, iterate, add the parts.\<close>

lemma accounts_collection:
  fixes build_coll :: "engine \<Rightarrow> 'c pyval \<Rightarrow> engine \<times> (error + 'a OGRGeometry)"
  assumes def: "\<And>s x. build_coll s x =
      (case create_by_name name s of
         (s1, Inl e) \<Rightarrow> (s1, Inl e)
       | (s1, Inr g) \<Rightarrow>
           (case py_iter x of Inl e \<Rightarrow> (s1, Inl e) | Inr xs \<Rightarrow> add_parts build_part s1 g xs))"
    and part: "accounts build_part"
  shows "accounts build_coll"
proof -
  have main: "case r of Inl e \<Rightarrow> live s \<le> live s' | Inr h \<Rightarrow> live s' = live s + node_count h"
    if run: "build_coll s x = (s', r)" for s x s' r
  proof -
    obtain s1 and r1 :: "error + 'a OGRGeometry" where c: "create_by_name name s = (s1, r1)"
      by (cases "create_by_name name s :: engine \<times> (error + 'a OGRGeometry)") blast
    show ?thesis
    proof (cases r1)
      case (Inl e)
      with c run def [of s x] have "s' = s1" "r = Inl e" by simp_all
      with create_by_name_Inl [OF c [unfolded Inl]] show ?thesis by simp
    next
      case (Inr g)
      note cr = create_by_name_Inr [OF c [unfolded Inr]]
      show ?thesis
      proof (cases "py_iter x")
        case (Inl e)
        with c Inr run def [of s x] have "s' = s1" "r = Inl e" by simp_all
        with cr show ?thesis by simp
      next
        case (Inr xs)
        with c \<open>r1 = Inr g\<close> run def [of s x]
        have ap: "add_parts build_part s1 g xs = (s', r)" by simp
        have "case r of Inl e \<Rightarrow> live s1 \<le> live s'
              | Inr h \<Rightarrow> live s' = live s1 + node_count h - node_count g"
          using ap
        proof (rule add_parts_live)
          fix s x s1 h assume "build_part s x = (s1, Inr h)"
          then show "live s1 = live s + node_count h" by (rule accounts_Inr [OF part])
        next
          fix s x s1 e assume "build_part s x = (s1, Inl e)"
          then show "live s \<le> live s1" by (rule accounts_Inl [OF part])
        qed
        with cr show ?thesis by (auto split: sum.splits)
      qed
    qed
  qed
  show ?thesis unfolding accounts_def using main by blast
qed

lemma accounts_buildPolygon: "accounts OGRGeomBuilder_buildPolygon"
  by (rule accounts_collection [OF _ accounts_buildLinearRing])
     (simp add: OGRGeomBuilder_buildPolygon_def)

lemma accounts_buildMultiPoint: "accounts OGRGeomBuilder_buildMultiPoint"
  by (rule accounts_collection [OF _ accounts_buildPoint])
     (simp add: OGRGeomBuilder_buildMultiPoint_def)

lemma accounts_buildMultiLineString: "accounts OGRGeomBuilder_buildMultiLineString"
  by (rule accounts_collection [OF _ accounts_buildLineString])
     (simp add: OGRGeomBuilder_buildMultiLineString_def)

lemma accounts_buildMultiPolygon: "accounts OGRGeomBuilder_buildMultiPolygon"
  by (rule accounts_collection [OF _ accounts_buildPolygon])
     (simp add: OGRGeomBuilder_buildMultiPolygon_def)

lemma accountsD:
  assumes "accounts build_part" "build_part s x = (s1, r)"
  shows "case r of Inl e \<Rightarrow> live s \<le> live s1 | Inr h \<Rightarrow> live s1 = live s + node_count h"
  using assms unfolding accounts_def by blast

lemma gc_loop_eq:
  "buildGeometryCollection_loop s g parts = add_parts OGRGeomBuilder_build s g parts"
  by (induction parts arbitrary: s g) (simp_all split: prod.splits sum.splits)

lemma build_accounts_aux:
  "OGRGeomBuilder_build s geometry = (s1, r) \<Longrightarrow>
     (case r of Inl e \<Rightarrow> live s \<le> live s1 | Inr h \<Rightarrow> live s1 = live s + node_count h)"
proof (induction geometry arbitrary: s s1 r)
  case (Geometry typename coords geoms)
  note run = Geometry.prems
  let ?c = "dict_get coords"
  consider (pt) "typename = ''Point''" | (ls) "typename = ''LineString''"
    | (lr) "typename = ''LinearRing''" | (pg) "typename = ''Polygon''"
    | (mp) "typename = ''MultiPoint''" | (ml) "typename = ''MultiLineString''"
    | (mg) "typename = ''MultiPolygon''" | (gc) "typename = ''GeometryCollection''"
    | (other) "typename \<notin> set handled_type_names"
    unfolding handled_type_names_def by auto
  then show ?case
  proof cases
    case pt
    with run have "OGRGeomBuilder_buildPoint s ?c = (s1, r)" by simp
    then show ?thesis by (rule accountsD [OF accounts_buildPoint])
  next
    case ls
    with run have "OGRGeomBuilder_buildLineString s ?c = (s1, r)" by simp
    then show ?thesis by (rule accountsD [OF accounts_buildLineString])
  next
    case lr
    with run have "OGRGeomBuilder_buildLinearRing s ?c = (s1, r)" by simp
    then show ?thesis by (rule accountsD [OF accounts_buildLinearRing])
  next
    case pg
    with run have "OGRGeomBuilder_buildPolygon s ?c = (s1, r)" by simp
    then show ?thesis by (rule accountsD [OF accounts_buildPolygon])
  next
    case mp
    with run have "OGRGeomBuilder_buildMultiPoint s ?c = (s1, r)" by simp
    then show ?thesis by (rule accountsD [OF accounts_buildMultiPoint])
  next
    case ml
    with run have "OGRGeomBuilder_buildMultiLineString s ?c = (s1, r)" by simp
    then show ?thesis by (rule accountsD [OF accounts_buildMultiLineString])
  next
    case mg
    with run have "OGRGeomBuilder_buildMultiPolygon s ?c = (s1, r)" by simp
    then show ?thesis by (rule accountsD [OF accounts_buildMultiPolygon])
  next
    case other
    with run have "s1 = s" "r = Inl (UnsupportedType typename)"
      by (simp_all add: handled_type_names_def)
    then show ?thesis by simp
  next
    case gc
    let ?s0 = "s\<lparr>live := live s + 1\<rparr>"
    let ?g0 = "OGRGeometry 7 2 [] [] :: 'a OGRGeometry"
    show ?thesis
    proof (cases geoms)
      case None
      with run gc have "s1 = ?s0" "r = Inl TypeError"
        by (simp_all add: create_by_name_values)
      then show ?thesis by simp
    next
      case (Some parts)
      with run gc have ap: "add_parts OGRGeomBuilder_build ?s0 ?g0 parts = (s1, r)"
        by (simp add: create_by_name_values gc_loop_eq)
      have "case r of Inl e \<Rightarrow> live ?s0 \<le> live s1
            | Inr h \<Rightarrow> live s1 = live ?s0 + node_count h - node_count ?g0"
        using ap
      proof (rule add_parts_live)
        fix s x s1 h assume "x \<in> set parts" "OGRGeomBuilder_build s x = (s1, Inr h)"
        with Geometry.IH [of parts x s s1 "Inr h"] Some
        show "live s1 = live s + node_count h" by simp
      next
        fix s x s1 e assume "x \<in> set parts" "OGRGeomBuilder_build s x = (s1, Inl e)"
        with Geometry.IH [of parts x s s1 "Inl e"] Some
        show "live s \<le> live s1" by simp
      qed
      then show ?thesis by (auto split: sum.splits)
    qed
  qed
qed

lemma accounts_build: "accounts OGRGeomBuilder_build"
  unfolding accounts_def using build_accounts_aux by blast








section \<open>Rings\<close>

lemma CloseRings_closed:
  assumes "ogr_points g \<noteq> []"
  shows "ogr_points (OGR_G_CloseRings g) \<noteq> []"
    and "hd (ogr_points (OGR_G_CloseRings g)) = last (ogr_points (OGR_G_CloseRings g))"
proof -
  show "ogr_points (OGR_G_CloseRings g) \<noteq> []"
    using assms by (simp add: OGR_G_CloseRings_def)
  show "hd (ogr_points (OGR_G_CloseRings g)) = last (ogr_points (OGR_G_CloseRings g))"
  proof (cases "2 \<le> length (ogr_points g)")
    case True
    then show ?thesis using assms by (simp add: OGR_G_CloseRings_def)
  next
    case False
    with assms obtain p where "ogr_points g = [p]"
      by (cases "ogr_points g") (auto simp add: not_le less_Suc_eq)
    then show ?thesis by (simp add: OGR_G_CloseRings_def)
  qed
qed

lemma CloseRings_fields:
  "ogr_type (OGR_G_CloseRings g) = ogr_type g"
  "ogr_dim (OGR_G_CloseRings g) = ogr_dim g"
  "ogr_geoms (OGR_G_CloseRings g) = ogr_geoms g"
  by (simp_all add: OGR_G_CloseRings_def)

lemma CloseRings_already_closed:
  assumes "ogr_points g = [] \<or> hd (ogr_points g) = last (ogr_points g)"
  shows "OGR_G_CloseRings g = g"
  using assms by (auto simp add: OGR_G_CloseRings_def)

lemma CloseRings_idem: "OGR_G_CloseRings (OGR_G_CloseRings g) = OGR_G_CloseRings g"
proof (cases "ogr_points g = []")
  case True
  then have "OGR_G_CloseRings g = g" by (simp add: CloseRings_already_closed)
  then show ?thesis by simp
next
  case False
  from CloseRings_closed(2) [OF False] show ?thesis
    by (simp add: CloseRings_already_closed)
qed

lemma buildLinearRing_coordinates:
  assumes "list_all is_coordinate cs"
  shows "OGRGeomBuilder_buildLinearRing s (Seq cs)
         = (s\<lparr>live := live s + 1\<rparr>,
            Inr (OGR_G_CloseRings
                   (OGRGeometry 101 (if list_ex is_xyz cs then 3 else 2) (map point_of cs) [])))"
  using assms
  by (simp add: OGRGeomBuilder_buildLinearRing_def create_by_name_values py_iter_def
      add_points_coordinates)

lemma buildLineString_coordinates:
  assumes "list_all is_coordinate cs"
  shows "OGRGeomBuilder_buildLineString s (Seq cs)
         = (s\<lparr>live := live s + 1\<rparr>,
            Inr (OGRGeometry 2 (if list_ex is_xyz cs then 3 else 2) (map point_of cs) []))"
  using assms
  by (simp add: OGRGeomBuilder_buildLineString_def create_by_name_values py_iter_def
      add_points_coordinates)

lemma build_geom_leaf:
  "GeomBuilder_build_geom (OGRGeometry 101 d ps gs)
     = Inr (Geometry ''LinearRing'' (Some (Seq (map (coord_of d) ps))) None)"
  "GeomBuilder_build_geom (OGRGeometry 2 d ps gs)
     = Inr (Geometry ''LineString'' (Some (Seq (map (coord_of d) ps))) None)"
  by (simp_all add: build_geom_dispatch [where name = "''LinearRing''"]
      build_geom_dispatch [where name = "''LineString''"]
      type_name_of_created geomtypename_values GeomBuilder_buildLinearRing_def
      GeomBuilder_buildLineString_def buildCoords_eq del: GeomBuilder_build_geom.simps)

lemma build_geom_ring_handle:
  "GeomBuilder_build_geom (OGR_G_CloseRings (OGRGeometry 101 d ps []))
     = Inr (Geometry ''LinearRing''
              (Some (Seq (map (coord_of d) (ogr_points (OGR_G_CloseRings (OGRGeometry 101 d ps [])))))) None)"
proof -
  obtain ps' where "OGR_G_CloseRings (OGRGeometry 101 d ps []) = OGRGeometry 101 d ps' []"
    by (cases "OGR_G_CloseRings (OGRGeometry 101 d ps [])")
       (use CloseRings_fields [of "OGRGeometry 101 d ps []"] in auto)
  then show ?thesis by (simp add: build_geom_leaf del: GeomBuilder_build_geom.simps)
qed


lemma build_LinearRing_coordinates:
  assumes "list_all is_coordinate cs"
  shows "OGRGeomBuilder_build s (Geometry ''LinearRing'' (Some (Seq cs)) None)
         = (s\<lparr>live := live s + 1\<rparr>,
            Inr (OGR_G_CloseRings
                   (OGRGeometry 101 (if list_ex is_xyz cs then 3 else 2) (map point_of cs) [])))"
  using buildLinearRing_coordinates [OF assms] by (simp add: dict_get_def)

lemma geometryRT_LinearRing:
  assumes "list_all is_coordinate cs"
  shows "snd (geometryRT s (Geometry ''LinearRing'' (Some (Seq cs)) None))
         = Inr (Geometry ''LinearRing''
                  (Some (Seq (map (coord_of (if list_ex is_xyz cs then 3 else 2))
                     (ogr_points (OGR_G_CloseRings
                        (OGRGeometry 101 (if list_ex is_xyz cs then 3 else 2)
                           (map point_of cs) []))))))
                  None)"
  unfolding geometryRT_def build_LinearRing_coordinates [OF assms]
  by (simp add: GeomBuilder_build_def build_geom_ring_handle del: GeomBuilder_build_geom.simps)

text \<open>
  C6. A LinearRing mapping whose coordinates are pairs or triples of numbers and whose
  first coordinate differs from the last is encoded and decoded to a coordinate sequence
  whose first and last coordinates are equal. For a ring that is closed already, encoding
  adds no point: the handle has as many points as the mapping has coordinates, and so has
  the decoded sequence. Closing a handle twice is closing it once.
\<close>

theorem LinearRing_round_trip_closes_ring:
  "(list_all is_coordinate cs \<and> cs \<noteq> [] \<and> hd cs \<noteq> last cs \<longrightarrow>
      (\<exists>ds. snd (geometryRT s (Geometry ''LinearRing'' (Some (Seq cs)) None))
               = Inr (Geometry ''LinearRing'' (Some (Seq ds)) None)
            \<and> ds \<noteq> [] \<and> hd ds = last ds))
   \<and> (list_all is_coordinate cs' \<and> cs' \<noteq> [] \<and> hd cs' = last cs' \<longrightarrow>
      (\<exists>s1 h ds. OGRGeomBuilder_build s (Geometry ''LinearRing'' (Some (Seq cs')) None)
                   = (s1, Inr h)
            \<and> OGR_G_GetPointCount h = length cs'
            \<and> snd (geometryRT s (Geometry ''LinearRing'' (Some (Seq cs')) None))
                = Inr (Geometry ''LinearRing'' (Some (Seq ds)) None)
            \<and> length ds = length cs'))
   \<and> OGR_G_CloseRings (OGR_G_CloseRings g) = OGR_G_CloseRings g"
proof (intro conjI impI)
  assume a: "list_all is_coordinate cs \<and> cs \<noteq> [] \<and> hd cs \<noteq> last cs"
  let ?d = "if list_ex is_xyz cs then 3 else 2 :: int"
  let ?h0 = "OGRGeometry 101 ?d (map point_of cs) []"
  let ?ps = "ogr_points (OGR_G_CloseRings ?h0)"
  from a have ne: "ogr_points ?h0 \<noteq> []" by simp
  note closed = CloseRings_closed [OF ne]
  have "map (coord_of ?d) ?ps \<noteq> []" using closed(1) by simp
  moreover have "hd (map (coord_of ?d) ?ps) = last (map (coord_of ?d) ?ps)"
    using closed by (simp add: hd_map last_map)
  ultimately show "\<exists>ds. snd (geometryRT s (Geometry ''LinearRing'' (Some (Seq cs)) None))
               = Inr (Geometry ''LinearRing'' (Some (Seq ds)) None)
            \<and> ds \<noteq> [] \<and> hd ds = last ds"
    using geometryRT_LinearRing [of cs s] a by blast
next
  assume a: "list_all is_coordinate cs' \<and> cs' \<noteq> [] \<and> hd cs' = last cs'"
  let ?d = "if list_ex is_xyz cs' then 3 else 2 :: int"
  let ?h0 = "OGRGeometry 101 ?d (map point_of cs') []"
  from a have "hd (ogr_points ?h0) = last (ogr_points ?h0)"
    by (simp add: hd_map last_map)
  then have same: "OGR_G_CloseRings ?h0 = ?h0" by (simp add: CloseRings_already_closed)
  from a have enc: "OGRGeomBuilder_build s (Geometry ''LinearRing'' (Some (Seq cs')) None)
      = (s\<lparr>live := live s + 1\<rparr>, Inr ?h0)"
    using build_LinearRing_coordinates [of cs' s] same by simp
  have cnt: "OGR_G_GetPointCount ?h0 = length cs'" by (simp add: OGR_G_GetPointCount_def)
  from a have rt: "snd (geometryRT s (Geometry ''LinearRing'' (Some (Seq cs')) None))
      = Inr (Geometry ''LinearRing'' (Some (Seq (map (coord_of ?d) (map point_of cs')))) None)"
    using geometryRT_LinearRing [of cs' s] same by simp
  have "length (map (coord_of ?d) (map point_of cs')) = length cs'" by simp
  with enc cnt rt
  show "\<exists>s1 h ds. OGRGeomBuilder_build s (Geometry ''LinearRing'' (Some (Seq cs')) None)
                   = (s1, Inr h)
            \<and> OGR_G_GetPointCount h = length cs'
            \<and> snd (geometryRT s (Geometry ''LinearRing'' (Some (Seq cs')) None))
                = Inr (Geometry ''LinearRing'' (Some (Seq ds)) None)
            \<and> length ds = length cs'"
    by blast
next
  show "OGR_G_CloseRings (OGR_G_CloseRings g) = OGR_G_CloseRings g" by (rule CloseRings_idem)
qed


theorem LinearRing_round_trip_closes_ring_witness:
  "list_all is_coordinate [Seq [Num (0::int), Num 0], Seq [Num 0, Num 1], Seq [Num 1, Num 1]]
   \<and> hd [Seq [Num (0::int), Num 0], Seq [Num 0, Num 1], Seq [Num 1, Num 1]]
       \<noteq> last [Seq [Num (0::int), Num 0], Seq [Num 0, Num 1], Seq [Num 1, Num 1]]
   \<and> snd (geometryRT \<lparr>live = 0\<rparr> (Geometry ''LinearRing''
         (Some (Seq [Seq [Num (0::int), Num 0], Seq [Num 0, Num 1], Seq [Num 1, Num 1]])) None))
       = Inr (Geometry ''LinearRing''
           (Some (Seq [Seq [Num 0, Num 0], Seq [Num 0, Num 1], Seq [Num 1, Num 1],
                       Seq [Num 0, Num 0]])) None)
   \<and> list_all is_coordinate [Seq [Num (0::int), Num 0], Seq [Num 0, Num 1], Seq [Num 0, Num 0]]
   \<and> hd [Seq [Num (0::int), Num 0], Seq [Num 0, Num 1], Seq [Num 0, Num 0]]
       = last [Seq [Num (0::int), Num 0], Seq [Num 0, Num 1], Seq [Num 0, Num 0]]
   \<and> OGRGeomBuilder_build \<lparr>live = 0\<rparr> (Geometry ''LinearRing''
         (Some (Seq [Seq [Num (0::int), Num 0], Seq [Num 0, Num 1], Seq [Num 0, Num 0]])) None)
       = (\<lparr>live = 1\<rparr>, Inr (OGRGeometry 101 2 [(0, 0, 0), (0, 1, 0), (0, 0, 0)] []))
   \<and> snd (geometryRT \<lparr>live = 0\<rparr> (Geometry ''LinearRing''
         (Some (Seq [Seq [Num (0::int), Num 0], Seq [Num 0, Num 1], Seq [Num 0, Num 0]])) None))
       = Inr (Geometry ''LinearRing''
           (Some (Seq [Seq [Num 0, Num 0], Seq [Num 0, Num 1], Seq [Num 0, Num 0]])) None)"
  using LinearRing_round_trip_closes_ring
    [where cs = "[Seq [Num (0::int), Num 0], Seq [Num 0, Num 1], Seq [Num 1, Num 1]]"
       and cs' = "[Seq [Num (0::int), Num 0], Seq [Num 0, Num 1], Seq [Num 0, Num 0]]"
       and s = "\<lparr>live = 0\<rparr>" and g = "OGRGeometry 101 2 [] [] :: int OGRGeometry"]
  by (simp add: is_coordinate_def geometryRT_LinearRing buildLinearRing_coordinates
      dict_get_def OGR_G_CloseRings_def coord_of_def)

section \<open>The round trip\<close>

lemma is_line_coordinates:
  assumes "is_line cs"
  shows "list_all is_coordinate cs"
  using assms by (auto simp add: is_line_def is_coordinate_def list_all_iff)

lemma line_round_trip:
  assumes "is_line cs"
  shows "map (coord_of (if list_ex is_xyz cs then 3 else 2)) (map point_of cs) = cs"
proof -
  from assms consider (xy) "list_all is_xy cs" | (xyz) "list_all is_xyz cs"
    by (auto simp add: is_line_def)
  then show ?thesis
  proof cases
    case xy
    then have "\<not> list_ex is_xyz cs"
      by (auto simp add: list_all_iff list_ex_iff dest: xy_not_xyz)
    moreover from xy have "map (coord_of 2 \<circ> point_of) cs = cs"
      by (intro map_idI) (simp add: list_all_iff coord_of_point_of)
    ultimately show ?thesis by simp
  next
    case xyz
    show ?thesis
    proof (cases "cs = []")
      case True
      then show ?thesis by simp
    next
      case False
      with xyz have "list_ex is_xyz cs"
        by (cases cs) (auto simp add: list_ex_iff)
      moreover from xyz have "map (coord_of 3 \<circ> point_of) cs = cs"
        by (intro map_idI) (simp add: list_all_iff coord_of_point_of)
      ultimately show ?thesis by simp
    qed
  qed
qed

lemma build_geom_Point_handle:
  "GeomBuilder_build_geom (OGRGeometry 1 d [p] gs)
     = Inr (Geometry ''Point'' (Some (coord_of d p)) None)"
  by (simp add: build_geom_dispatch [where name = "''Point''"] type_name_of_created
      geomtypename_values GeomBuilder_buildPoint_def buildCoords_eq
      del: GeomBuilder_build_geom.simps)

lemma round_trips_Point:
  assumes "is_coordinate c"
  shows "round_trips OGRGeomBuilder_buildPoint ''Point'' c"
proof -
  from assms consider (xy) "is_xy c" | (xyz) "is_xyz c" by (auto simp add: is_coordinate_def)
  then show ?thesis
  proof cases
    case xy
    then show ?thesis
      by (simp add: round_trips_def OGRGeomBuilder_buildPoint_def create_by_name_values
          addPoint_xy build_geom_Point_handle coord_of_point_of
          del: GeomBuilder_build_geom.simps)
  next
    case xyz
    then show ?thesis
      by (simp add: round_trips_def OGRGeomBuilder_buildPoint_def create_by_name_values
          addPoint_xyz build_geom_Point_handle coord_of_point_of
          del: GeomBuilder_build_geom.simps)
  qed
qed

lemma round_trips_LineString:
  assumes "is_line_value v"
  shows "round_trips OGRGeomBuilder_buildLineString ''LineString'' v"
proof -
  from assms obtain cs where v: "v = Seq cs" and l: "is_line cs"
    by (cases v) (simp_all add: is_line_value_def)
  let ?h0 = "OGRGeometry 2 (if list_ex is_xyz cs then 3 else 2) (map point_of cs) []"
  have enc: "OGRGeomBuilder_buildLineString s (Seq cs) = (s\<lparr>live := live s + 1\<rparr>, Inr ?h0)" for s
    by (rule buildLineString_coordinates [OF is_line_coordinates [OF l]])
  have "GeomBuilder_build_geom ?h0
        = Inr (Geometry ''LineString''
            (Some (Seq (map (coord_of (if list_ex is_xyz cs then 3 else 2)) (map point_of cs))))
            None)"
    by (rule build_geom_leaf)
  then have dec: "GeomBuilder_build_geom ?h0 = Inr (Geometry ''LineString'' (Some (Seq cs)) None)"
    by (simp only: line_round_trip [OF l])
  show ?thesis unfolding round_trips_def v using enc dec by blast
qed

lemma round_trips_LinearRing:
  assumes "is_ring_value v"
  shows "round_trips OGRGeomBuilder_buildLinearRing ''LinearRing'' v"
proof -
  from assms obtain cs where v: "v = Seq cs" and l: "is_line cs"
    and c: "cs = [] \<or> hd cs = last cs"
    by (cases v) (simp_all add: is_ring_value_def is_closed_ring_def)
  let ?h0 = "OGRGeometry 101 (if list_ex is_xyz cs then 3 else 2) (map point_of cs) []"
  have "ogr_points ?h0 = [] \<or> hd (ogr_points ?h0) = last (ogr_points ?h0)"
  proof (cases "cs = []")
    case True
    then show ?thesis by simp
  next
    case False
    with c show ?thesis by (simp add: hd_map last_map)
  qed
  then have same: "OGR_G_CloseRings ?h0 = ?h0" by (rule CloseRings_already_closed)
  have enc: "OGRGeomBuilder_buildLinearRing s (Seq cs) = (s\<lparr>live := live s + 1\<rparr>, Inr ?h0)" for s
    using buildLinearRing_coordinates [OF is_line_coordinates [OF l], of s]
    by (simp only: same)
  have "GeomBuilder_build_geom ?h0
        = Inr (Geometry ''LinearRing''
            (Some (Seq (map (coord_of (if list_ex is_xyz cs then 3 else 2)) (map point_of cs))))
            None)"
    by (rule build_geom_leaf)
  then have dec: "GeomBuilder_build_geom ?h0 = Inr (Geometry ''LinearRing'' (Some (Seq cs)) None)"
    by (simp only: line_round_trip [OF l])
  show ?thesis unfolding round_trips_def v using enc dec by blast
qed


lemma add_parts_handles:
  assumes "\<forall>x \<in> set xs. \<forall>s. \<exists>s1 h. build_part s x = (s1, Inr h) \<and> Q x h"
  shows "\<exists>s1 d hs. add_parts build_part s g xs
                      = (s1, Inr (OGRGeometry (ogr_type g) d (ogr_points g) (ogr_geoms g @ hs)))
                  \<and> list_all2 Q xs hs"
  using assms
proof (induction xs arbitrary: s g)
  case Nil
  have "g = OGRGeometry (ogr_type g) (ogr_dim g) (ogr_points g) (ogr_geoms g @ [])" by simp
  then have "add_parts build_part s g []
      = (s, Inr (OGRGeometry (ogr_type g) (ogr_dim g) (ogr_points g) (ogr_geoms g @ [])))"
    by simp
  then show ?case by (metis list_all2_Nil)
next
  case (Cons x xs)
  from Cons.prems obtain s1 h where b: "build_part s x = (s1, Inr h)" and q: "Q x h"
    by (metis list.set_intros(1))
  let ?g1 = "OGR_G_AddGeometryDirectly g h"
  from Cons.prems have rest: "\<forall>x \<in> set xs. \<forall>s. \<exists>s1 h. build_part s x = (s1, Inr h) \<and> Q x h"
    by simp
  from Cons.IH [OF rest, of s1 ?g1] obtain s2 d hs where
    ap: "add_parts build_part s1 ?g1 xs
         = (s2, Inr (OGRGeometry (ogr_type ?g1) d (ogr_points ?g1) (ogr_geoms ?g1 @ hs)))"
    and qs: "list_all2 Q xs hs"
    by blast
  have "add_parts build_part s g (x # xs)
        = (s2, Inr (OGRGeometry (ogr_type g) d (ogr_points g) (ogr_geoms g @ (h # hs))))"
    using b ap by (simp add: OGR_G_AddGeometryDirectly_def)
  moreover have "list_all2 Q (x # xs) (h # hs)" using q qs by simp
  ultimately show ?case by blast
qed

lemma buildParts_list_all2:
  assumes "list_all2 (\<lambda>x h. GeomBuilder_build_geom h = Inr (f x)) xs hs"
  shows "GeomBuilder_buildParts hs = Inr (map f xs)"
  using assms by (induction xs hs rule: list_all2_induct) simp_all

lemma part_coordinates_map:
  "part_coordinates (map (\<lambda>x. Geometry name (Some x) None) xs) = Inr xs"
  by (induction xs) simp_all

text \<open>A collection builder round-trips a sequence of parts that round-trip.\<close>

lemma round_trips_collection:
  fixes build_coll :: "engine \<Rightarrow> 'a pyval \<Rightarrow> engine \<times> (error + 'a OGRGeometry)"
  assumes def: "\<And>s x. build_coll s x =
      (case create_by_name cname s of
         (s1, Inl e) \<Rightarrow> (s1, Inl e)
       | (s1, Inr g) \<Rightarrow>
           (case py_iter x of Inl e \<Rightarrow> (s1, Inl e) | Inr xs \<Rightarrow> add_parts build_part s1 g xs))"
    and create: "\<And>s. create_by_name cname s
                   = (s\<lparr>live := live s + 1\<rparr>, Inr (OGRGeometry t 2 [] [] :: 'a OGRGeometry))"
    and t: "t \<in> {3, 4, 5, 6}" "geomtypename t = Inr cname"
    and cname: "cname \<in> {''Polygon'', ''MultiPoint'', ''MultiLineString'', ''MultiPolygon''}"
    and parts: "\<forall>x \<in> set xs. round_trips build_part pname x"
  shows "round_trips build_coll cname (Seq xs)"
proof -
  have "\<exists>s1 h. build_coll s (Seq xs) = (s1, Inr h)
              \<and> GeomBuilder_build_geom h = Inr (Geometry cname (Some (Seq xs)) None)" for s
  proof -
    let ?Q = "\<lambda>x h. GeomBuilder_build_geom h = Inr (Geometry pname (Some x) None)"
    from parts have "\<forall>x \<in> set xs. \<forall>s. \<exists>s1 h. build_part s x = (s1, Inr h) \<and> ?Q x h"
      by (simp add: round_trips_def)
    from add_parts_handles [OF this, of "s\<lparr>live := live s + 1\<rparr>" "OGRGeometry t 2 [] []"]
    obtain s1 d hs where
      ap: "add_parts build_part (s\<lparr>live := live s + 1\<rparr>) (OGRGeometry t 2 [] []) xs
           = (s1, Inr (OGRGeometry t d [] hs))"
      and qs: "list_all2 ?Q xs hs"
      by auto
    have enc: "build_coll s (Seq xs) = (s1, Inr (OGRGeometry t d [] hs))"
      by (simp add: def create py_iter_def ap)
    from t(1) have t8: "t \<in> {1, 2, 3, 4, 5, 6, 7, 101}" by auto
    have nm: "geomtypename (uint (OGR_G_GetGeometryType (OGRGeometry t d [] hs))) = Inr cname"
      using type_name_of_created [OF t8] t(2) by simp
    have bp: "GeomBuilder_buildParts hs = Inr (map (\<lambda>x. Geometry pname (Some x) None) xs)"
      using qs by (rule buildParts_list_all2)
    have "GeomBuilder_build_geom (OGRGeometry t d [] hs)
          = GeomBuilder_buildFromParts cname (GeomBuilder_buildParts hs)"
      unfolding build_geom_dispatch [OF nm] using cname by auto
    also have "\<dots> = Inr (Geometry cname (Some (Seq xs)) None)"
      by (simp add: bp GeomBuilder_buildFromParts_def part_coordinates_map)
    finally show ?thesis using enc by blast
  qed
  then show ?thesis by (simp add: round_trips_def)
qed

lemma round_trips_Polygon:
  assumes "is_polygon_value v"
  shows "round_trips OGRGeomBuilder_buildPolygon ''Polygon'' v"
proof -
  from assms obtain rings where v: "v = Seq rings" and r: "list_all is_ring_value rings"
    by (cases v) (simp_all add: is_polygon_value_def)
  show ?thesis unfolding v
  proof (rule round_trips_collection [where t = 3 and pname = "''LinearRing''"
        and build_part = OGRGeomBuilder_buildLinearRing])
    show "\<forall>x \<in> set rings. round_trips OGRGeomBuilder_buildLinearRing ''LinearRing'' x"
      using r by (simp add: list_all_iff round_trips_LinearRing)
  qed (simp_all add: OGRGeomBuilder_buildPolygon_def create_by_name_values geomtypename_values)
qed

lemma round_trips_MultiPoint:
  assumes "list_all is_coordinate cs"
  shows "round_trips OGRGeomBuilder_buildMultiPoint ''MultiPoint'' (Seq cs)"
proof (rule round_trips_collection [where t = 4 and pname = "''Point''"
      and build_part = OGRGeomBuilder_buildPoint])
  show "\<forall>x \<in> set cs. round_trips OGRGeomBuilder_buildPoint ''Point'' x"
    using assms by (simp add: list_all_iff round_trips_Point)
qed (simp_all add: OGRGeomBuilder_buildMultiPoint_def create_by_name_values geomtypename_values)

lemma round_trips_MultiLineString:
  assumes "list_all is_line_value ls"
  shows "round_trips OGRGeomBuilder_buildMultiLineString ''MultiLineString'' (Seq ls)"
proof (rule round_trips_collection [where t = 5 and pname = "''LineString''"
      and build_part = OGRGeomBuilder_buildLineString])
  show "\<forall>x \<in> set ls. round_trips OGRGeomBuilder_buildLineString ''LineString'' x"
    using assms by (simp add: list_all_iff round_trips_LineString)
qed (simp_all add: OGRGeomBuilder_buildMultiLineString_def create_by_name_values
    geomtypename_values)

lemma round_trips_MultiPolygon:
  assumes "list_all is_polygon_value ps"
  shows "round_trips OGRGeomBuilder_buildMultiPolygon ''MultiPolygon'' (Seq ps)"
proof (rule round_trips_collection [where t = 6 and pname = "''Polygon''"
      and build_part = OGRGeomBuilder_buildPolygon])
  show "\<forall>x \<in> set ps. round_trips OGRGeomBuilder_buildPolygon ''Polygon'' x"
    using assms by (simp add: list_all_iff round_trips_Polygon)
qed (simp_all add: OGRGeomBuilder_buildMultiPolygon_def create_by_name_values
    geomtypename_values)


lemma round_tripsD:
  assumes "round_trips build_part name x"
  shows "\<exists>s1 h. build_part s x = (s1, Inr h)
               \<and> GeomBuilder_build_geom h = Inr (Geometry name (Some x) None)"
  using assms by (simp add: round_trips_def)

lemma build_then_decode:
  "wf_geometry geometry \<Longrightarrow>
     \<exists>s1 h. OGRGeomBuilder_build s geometry = (s1, Inr h)
           \<and> GeomBuilder_build_geom h = Inr geometry"
proof (induction geometry arbitrary: s)
  case (Geometry T c gs)
  show ?case
  proof (cases "T = ''GeometryCollection''")
    case True
    with Geometry.prems obtain parts where gs: "gs = Some parts" and c: "c = None"
      and wf: "\<forall>p \<in> set parts. wf_geometry p"
      by (auto split: option.splits)
    let ?Q = "\<lambda>p h. GeomBuilder_build_geom h = Inr p"
    have "\<forall>p \<in> set parts. \<forall>s. \<exists>s1 h. OGRGeomBuilder_build s p = (s1, Inr h) \<and> ?Q p h"
      using Geometry.IH [of parts] gs wf by simp
    from add_parts_handles [OF this, of "s\<lparr>live := live s + 1\<rparr>" "OGRGeometry 7 2 [] []"]
    obtain s1 d hs where
      ap: "add_parts OGRGeomBuilder_build (s\<lparr>live := live s + 1\<rparr>) (OGRGeometry 7 2 [] []) parts
           = (s1, Inr (OGRGeometry 7 d [] hs))"
      and qs: "list_all2 ?Q parts hs"
      by auto
    have enc: "OGRGeomBuilder_build s (Geometry T c gs) = (s1, Inr (OGRGeometry 7 d [] hs))"
      using True gs ap by (simp add: create_by_name_values gc_loop_eq)
    have nm: "geomtypename (uint (OGR_G_GetGeometryType (OGRGeometry 7 d [] hs)))
              = Inr ''GeometryCollection''"
      by (simp add: type_name_of_created geomtypename_values)
    have bp: "GeomBuilder_buildParts hs = Inr (map (\<lambda>p. p) parts)"
      using qs by (rule buildParts_list_all2)
    have "GeomBuilder_build_geom (OGRGeometry 7 d [] hs)
          = GeomBuilder_buildGeometryCollection (GeomBuilder_buildParts hs)"
      unfolding build_geom_dispatch [OF nm] by simp
    also have "\<dots> = Inr (Geometry T c gs)"
      using True gs c by (simp add: bp GeomBuilder_buildGeometryCollection_def)
    finally show ?thesis using enc by blast
  next
    case False
    with Geometry.prems obtain D where c: "c = Some D" and gs: "gs = None"
      and wf: "wf_coordinates T D"
      by (auto split: option.splits)
    from wf consider (pt) "T = ''Point''" "is_coordinate D"
      | (ls) "T = ''LineString''" "is_line_value D"
      | (lr) "T = ''LinearRing''" "is_ring_value D"
      | (pg) "T = ''Polygon''" "is_polygon_value D"
      | (mp) cs where "T = ''MultiPoint''" "D = Seq cs" "list_all is_coordinate cs"
      | (ml) ls where "T = ''MultiLineString''" "D = Seq ls" "list_all is_line_value ls"
      | (mg) ps where "T = ''MultiPolygon''" "D = Seq ps" "list_all is_polygon_value ps"
      unfolding wf_coordinates_def by (auto split: if_splits pyval.splits)
    then show ?thesis
    proof cases
      case pt
      from round_tripsD [OF round_trips_Point [OF pt(2)], of s] show ?thesis
        by (simp add: pt(1) c gs dict_get_def del: GeomBuilder_build_geom.simps)
    next
      case ls
      from round_tripsD [OF round_trips_LineString [OF ls(2)], of s] show ?thesis
        by (simp add: ls(1) c gs dict_get_def del: GeomBuilder_build_geom.simps)
    next
      case lr
      from round_tripsD [OF round_trips_LinearRing [OF lr(2)], of s] show ?thesis
        by (simp add: lr(1) c gs dict_get_def del: GeomBuilder_build_geom.simps)
    next
      case pg
      from round_tripsD [OF round_trips_Polygon [OF pg(2)], of s] show ?thesis
        by (simp add: pg(1) c gs dict_get_def del: GeomBuilder_build_geom.simps)
    next
      case mp
      from round_tripsD [OF round_trips_MultiPoint [OF mp(3)], of s] show ?thesis
        by (simp add: mp(1,2) c gs dict_get_def del: GeomBuilder_build_geom.simps)
    next
      case ml
      from round_tripsD [OF round_trips_MultiLineString [OF ml(3)], of s] show ?thesis
        by (simp add: ml(1,2) c gs dict_get_def del: GeomBuilder_build_geom.simps)
    next
      case mg
      from round_tripsD [OF round_trips_MultiPolygon [OF mg(3)], of s] show ?thesis
        by (simp add: mg(1,2) c gs dict_get_def del: GeomBuilder_build_geom.simps)
    qed
  qed
qed

text \<open>
  C1. For every well-formed geometry mapping, \<^verbatim>\<open>geometryRT\<close> returns the mapping itself:
  the same type name and the same coordinate values in the same order, at every level of
  nesting. Well-formed means: the type is one of the eight handled names; a coordinate is a
  pair or a triple of numbers; the coordinates of one line or ring are all pairs or all
  triples; every ring of a LinearRing, Polygon or MultiPolygon is closed already (empty, or
  first coordinate equal to the last), so that ring closing adds nothing; a geometry
  collection holds well-formed mappings under \<^verbatim>\<open>'geometries'\<close>. The handle is deleted
  before the function returns: the count of allocated engine objects is as before.
\<close>

theorem geometryRT_round_trip:
  assumes "wf_geometry geometry"
  shows "snd (geometryRT s geometry) = Inr geometry
         \<and> live (fst (geometryRT s geometry)) = live s"
proof -
  from build_then_decode [OF assms, of s] obtain s1 h where
    enc: "OGRGeomBuilder_build s geometry = (s1, Inr h)"
    and dec: "GeomBuilder_build_geom h = Inr geometry"
    by blast
  have rt: "geometryRT s geometry = (deleteOgrGeom (Some h) s1, Inr geometry)"
    by (simp add: geometryRT_def enc dec GeomBuilder_build_def
        del: GeomBuilder_build_geom.simps)
  from accounts_Inr [OF accounts_build enc] show ?thesis
    by (simp add: rt deleteOgrGeom_def OGR_G_DestroyGeometry_def)
qed


theorem geometryRT_round_trip_witness:
  "wf_geometry (Geometry ''GeometryCollection'' None (Some
       [Geometry ''Polygon'' (Some (Seq [Seq [Seq [Num (0::int), Num 0], Seq [Num 0, Num 1],
          Seq [Num 1, Num 1], Seq [Num 1, Num 0], Seq [Num 0, Num 0]]])) None,
        Geometry ''Point'' (Some (Seq [Num 1, Num 2, Num 3])) None]))
   \<and> snd (geometryRT \<lparr>live = 0\<rparr> (Geometry ''GeometryCollection'' None (Some
       [Geometry ''Polygon'' (Some (Seq [Seq [Seq [Num (0::int), Num 0], Seq [Num 0, Num 1],
          Seq [Num 1, Num 1], Seq [Num 1, Num 0], Seq [Num 0, Num 0]]])) None,
        Geometry ''Point'' (Some (Seq [Num 1, Num 2, Num 3])) None])))
     = Inr (Geometry ''GeometryCollection'' None (Some
       [Geometry ''Polygon'' (Some (Seq [Seq [Seq [Num 0, Num 0], Seq [Num 0, Num 1],
          Seq [Num 1, Num 1], Seq [Num 1, Num 0], Seq [Num 0, Num 0]]])) None,
        Geometry ''Point'' (Some (Seq [Num 1, Num 2, Num 3])) None]))
   \<and> live (fst (geometryRT \<lparr>live = 0\<rparr> (Geometry ''GeometryCollection'' None (Some
       [Geometry ''Polygon'' (Some (Seq [Seq [Seq [Num (0::int), Num 0], Seq [Num 0, Num 1],
          Seq [Num 1, Num 1], Seq [Num 1, Num 0], Seq [Num 0, Num 0]]])) None,
        Geometry ''Point'' (Some (Seq [Num 1, Num 2, Num 3])) None])))) = 0"
proof -
  have wf: "wf_geometry (Geometry ''GeometryCollection'' None (Some
       [Geometry ''Polygon'' (Some (Seq [Seq [Seq [Num (0::int), Num 0], Seq [Num 0, Num 1],
          Seq [Num 1, Num 1], Seq [Num 1, Num 0], Seq [Num 0, Num 0]]])) None,
        Geometry ''Point'' (Some (Seq [Num 1, Num 2, Num 3])) None]))"
    by (simp add: wf_coordinates_def is_polygon_value_def is_ring_value_def is_closed_ring_def
        is_line_def is_coordinate_def)
  from wf geometryRT_round_trip [OF wf, of "\<lparr>live = 0\<rparr>"] show ?thesis by simp
qed

section \<open>The dimension of each handle\<close>

lemma coord_of_triple:
  "coord_of d (x, y, z) = (if d > 2 then Seq [Num x, Num y, Num z] else Seq [Num x, Num y])"
  by (simp add: coord_of_def)

lemma build_line_own_dimension:
  assumes "geomtypename (uint (OGR_G_GetGeometryType g)) = Inr name"
    and "name = ''LineString'' \<or> name = ''LinearRing''"
  shows "GeomBuilder_build (Some g)
         = Inr (Geometry name
             (Some (Seq (map (coord_of (OGR_G_GetCoordinateDimension g)) (ogr_points g)))) None)"
  using assms(2)
  by (auto simp add: GeomBuilder_build_def build_geom_dispatch [OF assms(1)]
      GeomBuilder_buildLineString_def GeomBuilder_buildLinearRing_def buildCoords_eq
      OGR_G_GetCoordinateDimension_def simp del: GeomBuilder_build_geom.simps)

lemma build_Point_own_dimension:
  assumes "geomtypename (uint (OGR_G_GetGeometryType g)) = Inr ''Point''"
    and "ogr_points g \<noteq> []"
  shows "GeomBuilder_build (Some g)
         = Inr (Geometry ''Point''
             (Some (coord_of (OGR_G_GetCoordinateDimension g) (hd (ogr_points g)))) None)"
  using assms(2)
  by (cases "ogr_points g")
     (simp_all add: GeomBuilder_build_def build_geom_dispatch [OF assms(1)]
        GeomBuilder_buildPoint_def buildCoords_eq OGR_G_GetCoordinateDimension_def
        del: GeomBuilder_build_geom.simps)

lemma buildParts_each_child:
  assumes "GeomBuilder_buildParts gs = Inr ts"
  shows "list_all2 (\<lambda>c t. GeomBuilder_build (Some c) = Inr t) gs ts"
  using assms
proof (induction gs arbitrary: ts)
  case Nil
  then show ?case by simp
next
  case (Cons c gs)
  from Cons.prems obtain t ts' where c: "GeomBuilder_build_geom c = Inr t"
    and gs: "GeomBuilder_buildParts gs = Inr ts'" and ts: "ts = t # ts'"
    by (auto split: sum.splits)
  from Cons.IH [OF gs] c ts show ?case by (simp add: GeomBuilder_build_def)
qed

lemma build_collection_children:
  assumes nm: "geomtypename (uint (OGR_G_GetGeometryType g)) = Inr name"
    and name: "name \<in> {''Polygon'', ''MultiPoint'', ''MultiLineString'', ''MultiPolygon''}"
    and t: "GeomBuilder_build (Some g) = Inr t"
  shows "\<exists>ts cs. list_all2 (\<lambda>c t'. GeomBuilder_build (Some c) = Inr t') (ogr_geoms g) ts
                \<and> part_coordinates ts = Inr cs
                \<and> t = Geometry name (Some (Seq cs)) None"
proof -
  from t name have "GeomBuilder_buildFromParts name (GeomBuilder_buildParts (ogr_geoms g)) = Inr t"
    unfolding GeomBuilder_build_def option.case build_geom_dispatch [OF nm] by auto
  then obtain ts cs where bp: "GeomBuilder_buildParts (ogr_geoms g) = Inr ts"
    and pc: "part_coordinates ts = Inr cs" and tt: "t = Geometry name (Some (Seq cs)) None"
    by (auto simp add: GeomBuilder_buildFromParts_def split: sum.splits)
  from buildParts_each_child [OF bp] pc tt show ?thesis by blast
qed

lemma build_GeometryCollection_children:
  assumes nm: "geomtypename (uint (OGR_G_GetGeometryType g)) = Inr ''GeometryCollection''"
    and t: "GeomBuilder_build (Some g) = Inr t"
  shows "\<exists>ts. list_all2 (\<lambda>c t'. GeomBuilder_build (Some c) = Inr t') (ogr_geoms g) ts
             \<and> t = Geometry ''GeometryCollection'' None (Some ts)"
proof -
  from t have "GeomBuilder_buildGeometryCollection (GeomBuilder_buildParts (ogr_geoms g)) = Inr t"
    unfolding GeomBuilder_build_def option.case build_geom_dispatch [OF nm] by simp
  then obtain ts where bp: "GeomBuilder_buildParts (ogr_geoms g) = Inr ts"
    and tt: "t = Geometry ''GeometryCollection'' None (Some ts)"
    by (auto simp add: GeomBuilder_buildGeometryCollection_def split: sum.splits)
  from buildParts_each_child [OF bp] tt show ?thesis by blast
qed

text \<open>The parts of a collection whose children are lines or rings.\<close>

lemma buildParts_of_lines:
  assumes "\<forall>c \<in> set gs. geomtypename (uint (OGR_G_GetGeometryType c))
                          \<in> {Inr ''LineString'', Inr ''LinearRing''}"
  shows "\<exists>ts. GeomBuilder_buildParts gs = Inr ts
             \<and> part_coordinates ts
                 = Inr (map (\<lambda>c. Seq (map (coord_of (OGR_G_GetCoordinateDimension c))
                                          (ogr_points c))) gs)"
  using assms
proof (induction gs)
  case Nil
  then show ?case by simp
next
  case (Cons c gs)
  from Cons.prems obtain name where nm: "geomtypename (uint (OGR_G_GetGeometryType c)) = Inr name"
    and name: "name = ''LineString'' \<or> name = ''LinearRing''"
    by auto
  from build_line_own_dimension [OF nm name]
  have c: "GeomBuilder_build_geom c
           = Inr (Geometry name
               (Some (Seq (map (coord_of (OGR_G_GetCoordinateDimension c)) (ogr_points c)))) None)"
    by (simp add: GeomBuilder_build_def)
  from Cons.IH Cons.prems obtain ts where ts: "GeomBuilder_buildParts gs = Inr ts"
    and pc: "part_coordinates ts
             = Inr (map (\<lambda>c. Seq (map (coord_of (OGR_G_GetCoordinateDimension c))
                                      (ogr_points c))) gs)"
    by auto
  show ?case using c ts pc by simp
qed

lemma build_collection_of_lines:
  assumes nm: "geomtypename (uint (OGR_G_GetGeometryType g)) = Inr name"
    and name: "name \<in> {''Polygon'', ''MultiPoint'', ''MultiLineString'', ''MultiPolygon''}"
    and kids: "\<forall>c \<in> set (ogr_geoms g). geomtypename (uint (OGR_G_GetGeometryType c))
                          \<in> {Inr ''LineString'', Inr ''LinearRing''}"
  shows "GeomBuilder_build (Some g)
         = Inr (Geometry name
             (Some (Seq (map (\<lambda>c. Seq (map (coord_of (OGR_G_GetCoordinateDimension c))
                                          (ogr_points c))) (ogr_geoms g)))) None)"
proof -
  from buildParts_of_lines [OF kids] obtain ts where
    ts: "GeomBuilder_buildParts (ogr_geoms g) = Inr ts"
    and pc: "part_coordinates ts
             = Inr (map (\<lambda>c. Seq (map (coord_of (OGR_G_GetCoordinateDimension c))
                                      (ogr_points c))) (ogr_geoms g))"
    by blast
  have "GeomBuilder_build (Some g)
        = GeomBuilder_buildFromParts name (GeomBuilder_buildParts (ogr_geoms g))"
    unfolding GeomBuilder_build_def option.case build_geom_dispatch [OF nm] using name by auto
  then show ?thesis by (simp add: ts pc GeomBuilder_buildFromParts_def)
qed

text \<open>
  C3, as the claim states it, fails: \<^verbatim>\<open>_buildParts\<close> decodes each child with a new
  \<^verbatim>\<open>GeomBuilder\<close>, whose \<^verbatim>\<open>build\<close> reads the dimension the child reports. A polygon
  handle that reports dimension 2 and has a ring that reports dimension 3 decodes to a
  coordinate with a third component.
\<close>

theorem decode_child_reports_3D:
  "OGR_G_GetCoordinateDimension (OGRGeometry 3 2 [] [OGRGeometry 101 3 [(0, 0, 5)] []] :: int OGRGeometry) = 2
   \<and> GeomBuilder_build (Some (OGRGeometry 3 2 [] [OGRGeometry 101 3 [(0, 0, 5)] []] :: int OGRGeometry))
       = Inr (Geometry ''Polygon'' (Some (Seq [Seq [Seq [Num 0, Num 0, Num 5]]])) None)
   \<and> \<not> geometry_has_no_z
         (Geometry ''Polygon'' (Some (Seq [Seq [Seq [Num (0::int), Num 0, Num 5]]])) None)"
  by (simp add: GeomBuilder_build_def OGR_G_GetCoordinateDimension_def OGR_G_GetGeometryType_def
      geomtypename_values GeomBuilder_buildFromParts_def GeomBuilder_buildLinearRing_def
      GeomBuilder_buildCoords_def OGR_G_GetPointCount_def OGR_G_GetX_def OGR_G_GetY_def
      OGR_G_GetZ_def)

text \<open>
  C3, amended. The dimension is read once for each handle, by the \<^verbatim>\<open>build\<close> call that
  decodes it, and applied to every point of that handle, never per point: \<^verbatim>\<open>build\<close> on a
  Point, LineString or LinearRing handle returns, for each of its points in order, the
  coordinate (x, y) when the handle reports a dimension of 2 or less and (x, y, z) when it
  reports more. A child is decoded with the dimension the child reports, not the root's:
  the parts of a Polygon, Multi* or GeometryCollection handle are what \<^verbatim>\<open>build\<close> returns
  for each child on its own, so the rings of a polygon have each the arity of their own
  dimension. So when the root and every descendant report dimension 2, no coordinate
  anywhere in the decoded output has a third component.
\<close>

theorem decode_dimension_read_per_handle:
  "(geomtypename (uint (OGR_G_GetGeometryType g)) = Inr name \<longrightarrow>
      (name = ''Point'' \<and> ogr_points g \<noteq> [] \<longrightarrow>
         GeomBuilder_build (Some g)
         = Inr (Geometry ''Point''
             (Some (coord_of (OGR_G_GetCoordinateDimension g) (hd (ogr_points g)))) None))
    \<and> (name = ''LineString'' \<or> name = ''LinearRing'' \<longrightarrow>
         GeomBuilder_build (Some g)
         = Inr (Geometry name
             (Some (Seq (map (coord_of (OGR_G_GetCoordinateDimension g)) (ogr_points g)))) None))
    \<and> (name \<in> {''Polygon'', ''MultiPoint'', ''MultiLineString'', ''MultiPolygon''}
        \<and> GeomBuilder_build (Some g) = Inr t \<longrightarrow>
         (\<exists>ts cs. list_all2 (\<lambda>c t'. GeomBuilder_build (Some c) = Inr t') (ogr_geoms g) ts
                \<and> part_coordinates ts = Inr cs
                \<and> t = Geometry name (Some (Seq cs)) None))
    \<and> (name \<in> {''Polygon'', ''MultiPoint'', ''MultiLineString'', ''MultiPolygon''}
        \<and> (\<forall>c \<in> set (ogr_geoms g). geomtypename (uint (OGR_G_GetGeometryType c))
                                      \<in> {Inr ''LineString'', Inr ''LinearRing''}) \<longrightarrow>
         GeomBuilder_build (Some g)
         = Inr (Geometry name
             (Some (Seq (map (\<lambda>c. Seq (map (coord_of (OGR_G_GetCoordinateDimension c))
                                          (ogr_points c))) (ogr_geoms g)))) None))
    \<and> (name = ''GeometryCollection'' \<and> GeomBuilder_build (Some g) = Inr t \<longrightarrow>
         (\<exists>ts. list_all2 (\<lambda>c t'. GeomBuilder_build (Some c) = Inr t') (ogr_geoms g) ts
              \<and> t = Geometry ''GeometryCollection'' None (Some ts))))
   \<and> coord_of d (x, y, z) = (if d > 2 then Seq [Num x, Num y, Num z] else Seq [Num x, Num y])
   \<and> (every_node_2D g \<and> GeomBuilder_build (Some g) = Inr t \<longrightarrow> geometry_has_no_z t)"
proof (intro conjI impI)
  assume nm: "geomtypename (uint (OGR_G_GetGeometryType g)) = Inr name"
  {
    assume "name = ''Point'' \<and> ogr_points g \<noteq> []"
    with nm show "GeomBuilder_build (Some g)
         = Inr (Geometry ''Point''
             (Some (coord_of (OGR_G_GetCoordinateDimension g) (hd (ogr_points g)))) None)"
      using build_Point_own_dimension [of g] by simp
  }
  {
    assume "name = ''LineString'' \<or> name = ''LinearRing''"
    with nm show "GeomBuilder_build (Some g)
         = Inr (Geometry name
             (Some (Seq (map (coord_of (OGR_G_GetCoordinateDimension g)) (ogr_points g)))) None)"
      by (rule build_line_own_dimension)
  }
  {
    assume "name \<in> {''Polygon'', ''MultiPoint'', ''MultiLineString'', ''MultiPolygon''}
        \<and> GeomBuilder_build (Some g) = Inr t"
    with nm show "\<exists>ts cs. list_all2 (\<lambda>c t'. GeomBuilder_build (Some c) = Inr t') (ogr_geoms g) ts
                \<and> part_coordinates ts = Inr cs
                \<and> t = Geometry name (Some (Seq cs)) None"
      using build_collection_children [of g name t] by blast
  }
  {
    assume "name \<in> {''Polygon'', ''MultiPoint'', ''MultiLineString'', ''MultiPolygon''}
        \<and> (\<forall>c \<in> set (ogr_geoms g). geomtypename (uint (OGR_G_GetGeometryType c))
                                      \<in> {Inr ''LineString'', Inr ''LinearRing''})"
    with nm show "GeomBuilder_build (Some g)
         = Inr (Geometry name
             (Some (Seq (map (\<lambda>c. Seq (map (coord_of (OGR_G_GetCoordinateDimension c))
                                          (ogr_points c))) (ogr_geoms g)))) None)"
      using build_collection_of_lines [of g name] by blast
  }
  {
    assume "name = ''GeometryCollection'' \<and> GeomBuilder_build (Some g) = Inr t"
    with nm show "\<exists>ts. list_all2 (\<lambda>c t'. GeomBuilder_build (Some c) = Inr t') (ogr_geoms g) ts
              \<and> t = Geometry ''GeometryCollection'' None (Some ts)"
      using build_GeometryCollection_children [of g t] by blast
  }
next
  show "coord_of d (x, y, z) = (if d > 2 then Seq [Num x, Num y, Num z] else Seq [Num x, Num y])"
    by (rule coord_of_triple)
next
  assume "every_node_2D g \<and> GeomBuilder_build (Some g) = Inr t"
  then show "geometry_has_no_z t"
    using build_2D_no_z [of g t] by (simp add: GeomBuilder_build_def)
qed


theorem decode_dimension_read_per_handle_witness:
  "geomtypename (uint (OGR_G_GetGeometryType
       (OGRGeometry 2 3 [(1, 2, 3), (4, 5, 6)] [] :: int OGRGeometry))) = Inr ''LineString''
   \<and> GeomBuilder_build (Some (OGRGeometry 2 3 [(1, 2, 3), (4, 5, 6)] [] :: int OGRGeometry))
       = Inr (Geometry ''LineString''
           (Some (Seq [Seq [Num 1, Num 2, Num 3], Seq [Num 4, Num 5, Num 6]])) None)
   \<and> geomtypename (uint (OGR_G_GetGeometryType
       (OGRGeometry 1 2 [(1, 2, 0)] [] :: int OGRGeometry))) = Inr ''Point''
   \<and> GeomBuilder_build (Some (OGRGeometry 1 2 [(1, 2, 0)] [] :: int OGRGeometry))
       = Inr (Geometry ''Point'' (Some (Seq [Num 1, Num 2])) None)
   \<and> geomtypename (uint (OGR_G_GetGeometryType
       (OGRGeometry 3 2 [] [OGRGeometry 101 3 [(0, 0, 5)] [], OGRGeometry 101 2 [(1, 1, 0)] []]
          :: int OGRGeometry))) = Inr ''Polygon''
   \<and> geomtypename (uint (OGR_G_GetGeometryType
       (OGRGeometry 101 3 [(0, 0, 5)] [] :: int OGRGeometry))) = Inr ''LinearRing''
   \<and> geomtypename (uint (OGR_G_GetGeometryType
       (OGRGeometry 101 2 [(1, 1, 0)] [] :: int OGRGeometry))) = Inr ''LinearRing''
   \<and> GeomBuilder_build (Some
       (OGRGeometry 3 2 [] [OGRGeometry 101 3 [(0, 0, 5)] [], OGRGeometry 101 2 [(1, 1, 0)] []]
          :: int OGRGeometry))
       = Inr (Geometry ''Polygon''
           (Some (Seq [Seq [Seq [Num 0, Num 0, Num 5]], Seq [Seq [Num 1, Num 1]]])) None)
   \<and> list_all2 (\<lambda>c t'. GeomBuilder_build (Some c) = Inr t')
         [OGRGeometry 101 3 [(0, 0, 5)] [], OGRGeometry 101 2 [(1, 1, 0)] [] :: int OGRGeometry]
         [Geometry ''LinearRing'' (Some (Seq [Seq [Num 0, Num 0, Num 5]])) None,
          Geometry ''LinearRing'' (Some (Seq [Seq [Num 1, Num 1]])) None]
   \<and> geomtypename (uint (OGR_G_GetGeometryType
       (OGRGeometry 7 2 [] [OGRGeometry 1 3 [(1, 2, 3)] []] :: int OGRGeometry)))
       = Inr ''GeometryCollection''
   \<and> GeomBuilder_build (Some (OGRGeometry 7 2 [] [OGRGeometry 1 3 [(1, 2, 3)] []] :: int OGRGeometry))
       = Inr (Geometry ''GeometryCollection'' None
           (Some [Geometry ''Point'' (Some (Seq [Num 1, Num 2, Num 3])) None]))
   \<and> every_node_2D (OGRGeometry 3 2 [] [OGRGeometry 101 2 [(0, 0, 0), (1, 1, 0)] []] :: int OGRGeometry)
   \<and> GeomBuilder_build (Some (OGRGeometry 3 2 [] [OGRGeometry 101 2 [(0, 0, 0), (1, 1, 0)] []] :: int OGRGeometry))
       = Inr (Geometry ''Polygon'' (Some (Seq [Seq [Seq [Num 0, Num 0], Seq [Num 1, Num 1]]])) None)
   \<and> geometry_has_no_z
        (Geometry ''Polygon'' (Some (Seq [Seq [Seq [Num (0::int), Num 0], Seq [Num 1, Num 1]]])) None)"
  using
    decode_dimension_read_per_handle
      [where g = "OGRGeometry 2 3 [(1, 2, 3), (4, 5, 6)] [] :: int OGRGeometry"
         and name = "''LineString''"]
    decode_dimension_read_per_handle
      [where g = "OGRGeometry 1 2 [(1, 2, 0)] [] :: int OGRGeometry" and name = "''Point''"]
    decode_dimension_read_per_handle
      [where g = "OGRGeometry 3 2 []
                    [OGRGeometry 101 3 [(0, 0, 5)] [], OGRGeometry 101 2 [(1, 1, 0)] []]
                  :: int OGRGeometry"
         and name = "''Polygon''"
         and t = "Geometry ''Polygon''
                    (Some (Seq [Seq [Seq [Num 0, Num 0, Num 5]], Seq [Seq [Num 1, Num 1]]])) None"]
    decode_dimension_read_per_handle
      [where g = "OGRGeometry 7 2 [] [OGRGeometry 1 3 [(1, 2, 3)] []] :: int OGRGeometry"
         and name = "''GeometryCollection''"
         and t = "Geometry ''GeometryCollection'' None
                    (Some [Geometry ''Point'' (Some (Seq [Num 1, Num 2, Num 3])) None])"]
    decode_dimension_read_per_handle
      [where g = "OGRGeometry 3 2 [] [OGRGeometry 101 2 [(0, 0, 0), (1, 1, 0)] []] :: int OGRGeometry"
         and name = "''Polygon''"
         and t = "Geometry ''Polygon''
                    (Some (Seq [Seq [Seq [Num 0, Num 0], Seq [Num 1, Num 1]]])) None"]
  by (simp add: GeomBuilder_build_def OGR_G_GetCoordinateDimension_def OGR_G_GetGeometryType_def
      geomtypename_values GeomBuilder_buildFromParts_def GeomBuilder_buildLinearRing_def
      GeomBuilder_buildLineString_def GeomBuilder_buildPoint_def
      GeomBuilder_buildGeometryCollection_def buildCoords_eq coord_of_def)

end
